theory Spec2Isabelle
  imports Main
begin

section \<open>Values thrown by middleware\<close>

text \<open>
  A JavaScript property that may hold a number, a string or nothing. Only what the
  error handler inspects is kept: whether the value is truthy and whether it is a number.
\<close>

datatype jsfield = Undef | NumV int | StrV string

fun truthy_field :: "jsfield \<Rightarrow> bool" where
  "truthy_field Undef = False"
| "truthy_field (NumV n) = (n \<noteq> 0)"
| "truthy_field (StrV s) = (s \<noteq> [])"

text \<open>
  An \<open>Error\<close> object with the properties that the framework reads: \<open>message\<close>,
  \<open>status\<close>, \<open>statusCode\<close>, \<open>code\<close>, \<open>expose\<close>, \<open>headers\<close>, and the
  \<open>headerSent\<close> mark that \<open>onerror\<close> writes.
\<close>

record error_obj =
  err_message :: string
  err_status :: jsfield
  err_statusCode :: jsfield
  err_code :: "string option"
  err_expose :: bool
  err_headers :: "(string \<times> string) list option"
  err_headerSent :: bool

definition new_Error :: "string \<Rightarrow> error_obj" where
  "new_Error msg =
     \<lparr>err_message = msg, err_status = Undef, err_statusCode = Undef, err_code = None,
      err_expose = False, err_headers = None, err_headerSent = False\<rparr>"

text \<open>
  Anything can be thrown: an \<open>Error\<close> object, or another value, of which only the
  \<open>%j\<close> rendering is kept.
\<close>

datatype thrown = ErrorV error_obj | NonError string

section \<open>compose.js\<close>

text \<open>
  The pipeline state. Every call of a composed function has its own closure variable
  \<open>index\<close>; the cells live in the store \<open>cursors\<close>, and \<open>fresh\<close> is the next free
  address. \<open>ctx\<close> is the context object that all steps share.
\<close>

record 'c pstate =
  cursors :: "nat \<Rightarrow> int"
  fresh :: nat
  ctx :: 'c

text \<open>
  A promise is modelled by the settled outcome of the computation behind it: the state it
  leaves and either the rejection reason (\<open>Inl\<close>) or fulfilment (\<open>Inr\<close>). Waiting for a
  promise is sequencing. A middleware receives the continuation \<open>next\<close>; the context is
  reached through the state.
\<close>

type_synonym 'c completion = "'c pstate \<times> (thrown + unit)"
type_synonym 'c async = "'c pstate \<Rightarrow> 'c completion"
type_synonym 'c middleware = "'c async \<Rightarrow> 'c async"

definition multiple_times :: thrown where
  "multiple_times = ErrorV (new_Error ''next() called multiple times'')"

text \<open>
  \<open>dispatch\<close> of the source, with \<open>a\<close> the address of its \<open>index\<close> cell.
  \<open>middleware[i]\<close> is a function for \<open>i < length\<close>, replaced by the outer \<open>next\<close> at
  \<open>i = length\<close>, and \<open>undefined\<close> beyond; a missing function resolves at once. A
  synchronous throw of \<open>func\<close> and a rejected promise are both \<open>Inl\<close>.
\<close>

function dispatch ::
  "nat \<Rightarrow> 'c middleware list \<Rightarrow> 'c middleware option \<Rightarrow> nat \<Rightarrow> 'c async" where
  "dispatch a middleware nxt i s =
     (if int i \<le> cursors s a then (s, Inl multiple_times)
      else
        let s' = s\<lparr>cursors := (cursors s)(a := int i)\<rparr> in
        if i < length middleware then (middleware ! i) (dispatch a middleware nxt (i + 1)) s'
        else if i = length middleware then
          (case nxt of
             None \<Rightarrow> (s', Inr ())
           | Some func \<Rightarrow> func (dispatch a middleware nxt (i + 1)) s')
        else (s', Inr ()))"
  by pat_completeness auto
termination
  by (relation "measure (\<lambda>(a, middleware, nxt, i, s). Suc (length middleware) - i)") auto

declare dispatch.simps [simp del]

text \<open>
  The function returned by \<open>compose(middleware)\<close>: a fresh \<open>index = -1\<close>, then
  \<open>dispatch(0)\<close>. The two \<open>TypeError\<close> checks of \<open>compose\<close> (the stack is an array,
  its elements are functions) hold by typing.
\<close>

definition compose :: "'c middleware list \<Rightarrow> 'c middleware option \<Rightarrow> 'c async" where
  "compose middleware nxt s =
     (let a = fresh s;
          s0 = s\<lparr>cursors := (cursors s)(a := - 1), fresh := a + 1\<rparr>
      in dispatch a middleware nxt 0 s0)"

subsection \<open>Step bodies\<close>

text \<open>
  The steps that the properties below range over are written in a small language of
  bodies: synchronous code on the context (which may throw), a test of the context,
  \<open>throw\<close>, and a call of \<open>next()\<close> whose promise the step waits for, either with
  \<open>await next()\<close> in an \<open>async\<close> function, or with \<open>return next().then(...)\<close> in a
  plain function, or inside \<open>try/catch\<close>. \<open>AwaitTimer\<close> is
  \<open>await new Promise(r => setTimeout(r, 1))\<close>. A step of this language cannot reach
  the \<open>index\<close> of a pipeline, which is private to the closure.
\<close>

datatype 'c stmt =
    Return
  | Throw thrown
  | Act "'c \<Rightarrow> thrown + 'c" "'c stmt"
  | Cond "'c \<Rightarrow> bool" "'c stmt" "'c stmt"
  | AwaitTimer "'c stmt"
  | AwaitNext "'c stmt"
  | ThenNext "'c stmt"
  | TryNext "'c stmt" "'c stmt"

fun exec :: "'c stmt \<Rightarrow> 'c middleware" where
  "exec Return next s = (s, Inr ())"
| "exec (Throw e) next s = (s, Inl e)"
| "exec (Act f k) next s =
     (case f (ctx s) of Inl e \<Rightarrow> (s, Inl e) | Inr c' \<Rightarrow> exec k next (s\<lparr>ctx := c'\<rparr>))"
| "exec (Cond p k1 k2) next s = (if p (ctx s) then exec k1 next s else exec k2 next s)"
| "exec (AwaitTimer k) next s = exec k next s"
| "exec (AwaitNext k) next s =
     (case next s of (s', Inl e) \<Rightarrow> (s', Inl e) | (s', Inr _) \<Rightarrow> exec k next s')"
| "exec (ThenNext k) next s =
     (case next s of (s', Inl e) \<Rightarrow> (s', Inl e) | (s', Inr _) \<Rightarrow> exec k next s')"
| "exec (TryNext k h) next s =
     (case next s of (s', Inl e) \<Rightarrow> exec h next s' | (s', Inr _) \<Rightarrow> exec k next s')"

text \<open>
  A step that records its index before and after \<open>next()\<close>, in either style:
  \<open>async (ctx, next) => { arr.push(i); await timer; await next(); await timer; arr.push(i) }\<close>
  and \<open>(ctx, next) => { arr.push(i); return next().then(() => arr.push(i)) }\<close>.
\<close>

datatype style = Asynchronous | Synchronous

definition push :: "nat \<Rightarrow> nat list \<Rightarrow> thrown + nat list" where
  "push i arr = Inr (arr @ [i])"

fun recorder :: "style \<Rightarrow> nat \<Rightarrow> nat list stmt" where
  "recorder Asynchronous i =
     Act (push i) (AwaitTimer (AwaitNext (AwaitTimer (Act (push i) Return))))"
| "recorder Synchronous i =
     Act (push i) (ThenNext (Act (push i) Return))"

definition recorders :: "style list \<Rightarrow> nat list middleware list" where
  "recorders styles = map (\<lambda>(st, i). exec (recorder st i)) (zip styles [0 ..< length styles])"

section \<open>Strings\<close>

text \<open>
  A string is a list of code units below 256, as the header values and status lines that
  Node hands over are. \<open>is_space\<close> is the class \<open>\\s\<close> of regular expressions
  on that range, \<open>byteLength\<close> the UTF-8 length of \<open>Buffer.byteLength\<close>, and
  \<open>show_int\<close> the decimal \<open>String(n)\<close> of an integer.
\<close>

definition ascii_upper :: string where "ascii_upper = ''ABCDEFGHIJKLMNOPQRSTUVWXYZ''"
definition ascii_lower :: string where "ascii_lower = ''abcdefghijklmnopqrstuvwxyz''"

definition toLowerChar :: "char \<Rightarrow> char" where
  "toLowerChar c = (case map_of (zip ascii_upper ascii_lower) c of Some d \<Rightarrow> d | None \<Rightarrow> c)"

definition toUpperChar :: "char \<Rightarrow> char" where
  "toUpperChar c = (case map_of (zip ascii_lower ascii_upper) c of Some d \<Rightarrow> d | None \<Rightarrow> c)"

definition toLowerCase :: "string \<Rightarrow> string" where
  "toLowerCase s = map toLowerChar s"

definition toUpperCase :: "string \<Rightarrow> string" where
  "toUpperCase s = map toUpperChar s"

definition is_space :: "char \<Rightarrow> bool" where
  "is_space c = (of_char c \<in> {9, 10, 11, 12, 13, 32, 160 :: nat})"

definition digit_char :: "nat \<Rightarrow> char" where
  "digit_char d = ''0123456789'' ! d"

function show_nat :: "nat \<Rightarrow> string" where
  "show_nat n = (if n < 10 then [digit_char n] else show_nat (n div 10) @ [digit_char (n mod 10)])"
  by pat_completeness auto
termination
  by (relation "measure id") auto

declare show_nat.simps [simp del]

definition show_int :: "int \<Rightarrow> string" where
  "show_int n = (if n < 0 then CHR ''-'' # show_nat (nat (- n)) else show_nat (nat n))"

definition byteLength :: "string \<Rightarrow> nat" where
  "byteLength s = sum_list (map (\<lambda>c. if of_char c < (128 :: nat) then 1 else 2) s)"

fun join :: "string \<Rightarrow> string list \<Rightarrow> string" where
  "join sep [] = []"
| "join sep [x] = x"
| "join sep (x # y # ys) = x @ sep @ join sep (y # ys)"

section \<open>Tables of the packages \<open>statuses\<close> and \<open>mime-types\<close>\<close>

text \<open>
  The framework reads three tables of its dependencies: the reason phrases
  \<open>statuses.message\<close>, the codes \<open>statuses.empty\<close> whose responses carry no body,
  and the content types that \<open>mime-types\<close> gives for the four names the response
  object passes to it.
\<close>

definition status_codes :: "(int \<times> string) list" where
  "status_codes =
    [(100, ''Continue''), (101, ''Switching Protocols''), (102, ''Processing''),
     (103, ''Early Hints''), (200, ''OK''), (201, ''Created''), (202, ''Accepted''),
     (203, ''Non-Authoritative Information''), (204, ''No Content''), (205, ''Reset Content''),
     (206, ''Partial Content''), (207, ''Multi-Status''), (208, ''Already Reported''),
     (226, ''IM Used''), (300, ''Multiple Choices''), (301, ''Moved Permanently''),
     (302, ''Found''), (303, ''See Other''), (304, ''Not Modified''), (305, ''Use Proxy''),
     (307, ''Temporary Redirect''), (308, ''Permanent Redirect''), (400, ''Bad Request''),
     (401, ''Unauthorized''), (402, ''Payment Required''), (403, ''Forbidden''),
     (404, ''Not Found''), (405, ''Method Not Allowed''), (406, ''Not Acceptable''),
     (407, ''Proxy Authentication Required''), (408, ''Request Timeout''), (409, ''Conflict''),
     (410, ''Gone''), (411, ''Length Required''), (412, ''Precondition Failed''),
     (413, ''Payload Too Large''), (414, ''URI Too Long''), (415, ''Unsupported Media Type''),
     (416, ''Range Not Satisfiable''), (417, ''Expectation Failed''), (418, ''I'm a Teapot''),
     (421, ''Misdirected Request''), (422, ''Unprocessable Entity''), (423, ''Locked''),
     (424, ''Failed Dependency''), (425, ''Too Early''), (426, ''Upgrade Required''),
     (428, ''Precondition Required''), (429, ''Too Many Requests''),
     (431, ''Request Header Fields Too Large''), (451, ''Unavailable For Legal Reasons''),
     (500, ''Internal Server Error''), (501, ''Not Implemented''), (502, ''Bad Gateway''),
     (503, ''Service Unavailable''), (504, ''Gateway Timeout''),
     (505, ''HTTP Version Not Supported''), (506, ''Variant Also Negotiates''),
     (507, ''Insufficient Storage''), (508, ''Loop Detected''),
     (509, ''Bandwidth Limit Exceeded''), (510, ''Not Extended''),
     (511, ''Network Authentication Required'')]"

definition statuses_message :: "int \<Rightarrow> string option" where
  "statuses_message code = map_of status_codes code"

definition statuses_empty :: "int \<Rightarrow> bool" where
  "statuses_empty code = (code \<in> {204, 205, 304})"

definition mime_contentType :: "string \<Rightarrow> string option" where
  "mime_contentType t =
     map_of [(''text'', ''text/plain; charset=utf-8''), (''html'', ''text/html; charset=utf-8''),
             (''bin'', ''application/octet-stream''),
             (''json'', ''application/json; charset=utf-8'')] t"

section \<open>The request context (context.js, response.js) \<close>

text \<open>
  A response body: never set, \<open>null\<close>, a string, a \<open>Buffer\<close>, a stream (by its
  handle), or a structured value that is sent as JSON.
\<close>

datatype structured = JBool bool | JNum int | JObject string

datatype body_value =
  Undefined | Null | Str string | Buf "nat list" | Stream nat | Struct structured

text \<open>What has been handed to the transport by \<open>res.end\<close> or \<open>pipe\<close>.\<close>

datatype payload = NoPayload | Text string | Bytes "nat list" | Piped nat

text \<open>A matched route as the context keeps it in \<open>ctx.matched\<close>: its path and methods.\<close>

record layer_ref =
  ref_path :: string
  ref_methods :: "string list"

text \<open>
  One record holds what the context, its response object and Node's \<open>req\<close> and \<open>res\<close>
  hold for a request: the request line, the status line, the outgoing headers by
  lower-cased name, the transport flags, the body with the two marks \<open>_explicitStatus\<close>
  and \<open>_explicitNullBody\<close>, \<open>ctx.respond === false\<close>, \<open>ctx.matched\<close>, and the
  errors emitted on the application. Header values are strings.
\<close>

record request_context =
  req_method :: string
  path :: string
  host :: string
  httpVersionMajor :: nat
  statusCode :: int
  statusMessage :: "string option"
  headers :: "string \<rightharpoonup> string"
  headersSent :: bool
  writableEnded :: bool
  socket_writable :: "bool option"
  sent :: "payload option"
  body :: body_value
  explicitStatus :: bool
  explicitNullBody :: bool
  respond_false :: bool
  matched :: "layer_ref list option"
  emitted :: "error_obj list"

text \<open>\<open>createContext\<close> on a new request: Node's response starts at 200 with no headers.\<close>

definition createContext :: "string \<Rightarrow> string \<Rightarrow> string \<Rightarrow> nat \<Rightarrow> request_context" where
  "createContext m url h version =
     \<lparr>req_method = m, path = url, host = h, httpVersionMajor = version, statusCode = 200,
      statusMessage = None, headers = Map.empty, headersSent = False, writableEnded = False,
      socket_writable = Some True, sent = None, body = Undefined, explicitStatus = False,
      explicitNullBody = False, respond_false = False, matched = None, emitted = []\<rparr>"

fun nullish :: "body_value \<Rightarrow> bool" where
  "nullish Undefined = True"
| "nullish Null = True"
| "nullish _ = False"

fun truthy :: "body_value \<Rightarrow> bool" where
  "truthy Undefined = False"
| "truthy Null = False"
| "truthy (Str s) = (s \<noteq> [])"
| "truthy (Buf b) = True"
| "truthy (Stream h) = True"
| "truthy (Struct (JBool b)) = b"
| "truthy (Struct (JNum n)) = (n \<noteq> 0)"
| "truthy (Struct (JObject s)) = True"

fun JSON_stringify :: "structured \<Rightarrow> string" where
  "JSON_stringify (JBool b) = (if b then ''true'' else ''false'')"
| "JSON_stringify (JNum n) = show_int n"
| "JSON_stringify (JObject s) = s"

subsection \<open>Node's response object\<close>

definition res_setHeader :: "request_context \<Rightarrow> string \<Rightarrow> string \<Rightarrow> request_context" where
  "res_setHeader c name v = c\<lparr>headers := (headers c)(toLowerCase name \<mapsto> v)\<rparr>"

definition res_removeHeader :: "request_context \<Rightarrow> string \<Rightarrow> request_context" where
  "res_removeHeader c name = c\<lparr>headers := (headers c)(toLowerCase name := None)\<rparr>"

definition res_end :: "request_context \<Rightarrow> payload \<Rightarrow> request_context" where
  "res_end c p =
     (if writableEnded c then c
      else c\<lparr>headersSent := True, writableEnded := True, sent := Some p\<rparr>)"

subsection \<open>Header access of the response\<close>

definition get_header :: "request_context \<Rightarrow> string \<Rightarrow> string option" where
  "get_header c field = headers c (toLowerCase field)"

definition has_header :: "request_context \<Rightarrow> string \<Rightarrow> bool" where
  "has_header c field = (headers c (toLowerCase field) \<noteq> None)"

definition set_header :: "request_context \<Rightarrow> string \<Rightarrow> string \<Rightarrow> request_context" where
  "set_header c field v = (if headersSent c then c else res_setHeader c field v)"

text \<open>\<open>set(object)\<close>: every field of the object in turn; nothing for \<open>undefined\<close>.\<close>

definition set_headers ::
  "request_context \<Rightarrow> (string \<times> string) list option \<Rightarrow> request_context" where
  "set_headers c hs =
     (if headersSent c then c
      else (case hs of
              None \<Rightarrow> c
            | Some kvs \<Rightarrow> fold (\<lambda>(k, v) c'. set_header c' k v) kvs c))"

definition remove_header :: "request_context \<Rightarrow> string \<Rightarrow> request_context" where
  "remove_header c field = (if headersSent c then c else res_removeHeader c field)"

definition writable :: "request_context \<Rightarrow> bool" where
  "writable c =
     (if writableEnded c then False
      else (case socket_writable c of None \<Rightarrow> True | Some w \<Rightarrow> w))"

definition get_type :: "request_context \<Rightarrow> string" where
  "get_type c =
     (case get_header c ''Content-Type'' of
        None \<Rightarrow> []
      | Some t \<Rightarrow> takeWhile (\<lambda>ch. ch \<noteq> CHR '';'') t)"

text \<open>The cache in front of \<open>mimeTypes.contentType\<close> does not change what is set.\<close>

definition set_type :: "request_context \<Rightarrow> string \<Rightarrow> request_context" where
  "set_type c t =
     (case mime_contentType t of
        Some mimeType \<Rightarrow> set_header c ''Content-Type'' mimeType
      | None \<Rightarrow> remove_header c ''Content-Type'')"

definition set_length :: "request_context \<Rightarrow> int \<Rightarrow> request_context" where
  "set_length c n =
     (if \<not> has_header c ''Transfer-Encoding''
      then set_header c ''Content-Length'' (show_int n) else c)"

definition get_message :: "request_context \<Rightarrow> string option" where
  "get_message c =
     (case statusMessage c of
        Some m \<Rightarrow> if m \<noteq> [] then Some m else statuses_message (statusCode c)
      | None \<Rightarrow> statuses_message (statusCode c))"

text \<open>The test \<open>/^\s*</\<close> of a string body.\<close>

definition html_like :: "string \<Rightarrow> bool" where
  "html_like v = (case dropWhile is_space v of [] \<Rightarrow> False | ch # _ \<Rightarrow> ch = CHR ''<'')"

definition assertion_error :: "string \<Rightarrow> thrown" where
  "assertion_error msg = ErrorV (new_Error msg)"

subsection \<open>The setters of \<open>status\<close> and \<open>body\<close>\<close>

text \<open>
  The two setters call each other: a status of the empty set clears a body that is set,
  and a body of \<open>null\<close> moves a status outside the empty set to 204. A status is an
  integer here, so of the two assertions of the setter only the range can fail. The
  listeners that the setter hangs on a stream body are not part of the state.
\<close>

function set_status :: "request_context \<Rightarrow> int \<Rightarrow> thrown + request_context"
  and set_body :: "request_context \<Rightarrow> body_value \<Rightarrow> thrown + request_context" where
  "set_status c code =
     (if headersSent c then Inr c
      else if \<not> (100 \<le> code \<and> code \<le> 999)
        then Inl (assertion_error (''invalid status code: '' @ show_int code))
      else
        let c1 = c\<lparr>explicitStatus := True, statusCode := code\<rparr>;
            c2 = (if httpVersionMajor c1 < 2
                  then c1\<lparr>statusMessage := statuses_message code\<rparr> else c1)
        in if truthy (body c2) \<and> statuses_empty code then set_body c2 Null else Inr c2)"
| "set_body c v =
     (let original = body c;
          c0 = c\<lparr>body := v\<rparr>
      in
      if nullish v then
        if \<not> statuses_empty (statusCode c0) \<and> get_type c0 = ''application/json''
        then Inr (c0\<lparr>body := Str ''null''\<rparr>)
        else
          (case (if \<not> statuses_empty (statusCode c0) then set_status c0 204 else Inr c0) of
             Inl e \<Rightarrow> Inl e
           | Inr c1 \<Rightarrow>
               let c2 = (if v = Null then c1\<lparr>explicitNullBody := True\<rparr> else c1)
               in Inr (remove_header (remove_header (remove_header c2
                        ''Content-Type'') ''Content-Length'') ''Transfer-Encoding''))
      else
        (case (if \<not> explicitStatus c0 then set_status c0 200 else Inr c0) of
           Inl e \<Rightarrow> Inl e
         | Inr c1 \<Rightarrow>
             let setType = \<not> has_header c1 ''Content-Type'' in
             (case v of
                Str s \<Rightarrow>
                  let c2 = (if setType
                            then set_type c1 (if html_like s then ''html'' else ''text'') else c1)
                  in Inr (set_length c2 (int (byteLength s)))
              | Buf b \<Rightarrow>
                  let c2 = (if setType then set_type c1 ''bin'' else c1)
                  in Inr (set_length c2 (int (length b)))
              | Stream h \<Rightarrow>
                  let c2 = (if original \<noteq> v \<and> \<not> nullish original
                            then remove_header c1 ''Content-Length'' else c1)
                  in Inr (if setType then set_type c2 ''bin'' else c2)
              | _ \<Rightarrow> Inr (set_type (remove_header c1 ''Content-Length'') ''json''))))"
  by pat_completeness auto
termination
  by (relation "measure (\<lambda>x. case x of
          Inl (c, code) \<Rightarrow> if truthy (body c) then 2 else 0
        | Inr (c, v) \<Rightarrow> if truthy v then 3 else 1)")
     (auto split: if_splits)

declare set_status.simps [simp del] set_body.simps [simp del]

text \<open>
  The getter of \<open>length\<close>: the header when it is there (\<open>parseInt(...) || 0\<close>), else the
  length of the body when it can be known.
\<close>

definition parseInt :: "string \<Rightarrow> int option" where
  "parseInt s =
     (let s1 = dropWhile is_space s;
          neg = (s1 \<noteq> [] \<and> hd s1 = CHR ''-'');
          s2 = (if s1 \<noteq> [] \<and> (hd s1 = CHR ''-'' \<or> hd s1 = CHR ''+'') then tl s1 else s1);
          ds = takeWhile (\<lambda>ch. ch \<in> set ''0123456789'') s2;
          n = foldl (\<lambda>acc ch. 10 * acc + int (of_char ch - 48)) 0 ds
      in if ds = [] then None else Some (if neg then - n else n))"

definition get_length :: "request_context \<Rightarrow> int option" where
  "get_length c =
     (case get_header c ''Content-Length'' of
        Some v \<Rightarrow> (case parseInt v of None \<Rightarrow> Some 0 | Some n \<Rightarrow> Some n)
      | None \<Rightarrow>
          (case body c of
             Str s \<Rightarrow> if s = [] then None else Some (int (byteLength s))
           | Buf b \<Rightarrow> Some (int (length b))
           | Struct j \<Rightarrow> if truthy (Struct j) then Some (int (byteLength (JSON_stringify j)))
                         else None
           | _ \<Rightarrow> None))"

subsection \<open>Error handling of the context\<close>

text \<open>
  \<open>ctx.onerror(err)\<close>. \<open>None\<close> is \<open>err == null\<close>. The error is emitted on the
  application before anything is written; with headers sent or the transport closed
  nothing more is done.
\<close>

definition ctx_onerror :: "request_context \<Rightarrow> thrown option \<Rightarrow> thrown + request_context" where
  "ctx_onerror c thrown_value =
     (case thrown_value of
        None \<Rightarrow> Inr c
      | Some t \<Rightarrow>
          let err = (case t of
                       ErrorV e \<Rightarrow> e
                     | NonError j \<Rightarrow> new_Error (''non-error thrown: '' @ j));
              headerSent = (headersSent c \<or> \<not> writable c);
              err1 = (if headerSent then err\<lparr>err_headerSent := True\<rparr> else err);
              c1 = c\<lparr>emitted := emitted c @ [err1]\<rparr>
          in
          if headerSent then Inr c1
          else
            let c2 = c1\<lparr>headers := Map.empty\<rparr>;
                c3 = set_headers c2 (err_headers err);
                c4 = set_type c3 ''text'';
                statusCode0 = (if truthy_field (err_status err)
                               then err_status err else err_statusCode err);
                statusCode1 = (if err_code err = Some ''ENOENT'' then NumV 404 else statusCode0);
                statusCode2 = (case statusCode1 of
                                 NumV n \<Rightarrow> if statuses_message n = None then 500 else n
                               | _ \<Rightarrow> 500);
                msg = (if err_expose err then err_message err
                       else (case statuses_message statusCode2 of Some m \<Rightarrow> m | None \<Rightarrow> []))
            in (case set_status c4 statusCode2 of
                  Inl e \<Rightarrow> Inl e
                | Inr c5 \<Rightarrow> Inr (res_end (set_length c5 (int (byteLength msg))) (Text msg))))"

section \<open>The application (index.js)\<close>

text \<open>
  \<open>handleResponse\<close>, the finalization that \<open>handleRequest\<close> runs when the pipeline
  has fulfilled.
\<close>

definition handleResponse :: "request_context \<Rightarrow> thrown + request_context" where
  "handleResponse c =
     (if respond_false c then Inr c
      else if \<not> writable c then Inr c
      else
        let code = statusCode c in
        if statuses_empty code then
          (case set_body c Null of Inl e \<Rightarrow> Inl e | Inr c1 \<Rightarrow> Inr (res_end c1 NoPayload))
        else if req_method c = ''HEAD'' then
          (let c1 = (if \<not> headersSent c \<and> \<not> has_header c ''Content-Length''
                     then (case get_length c of Some n \<Rightarrow> set_length c n | None \<Rightarrow> c)
                     else c)
           in Inr (res_end c1 NoPayload))
        else if nullish (body c) then
          (if explicitNullBody c then
             Inr (res_end (set_length (remove_header (remove_header c
                    ''Content-Type'') ''Transfer-Encoding'') 0) NoPayload)
           else
             let b = (if httpVersionMajor c \<ge> 2 then show_int code
                      else (case get_message c of
                              Some m \<Rightarrow> if m \<noteq> [] then m else show_int code
                            | None \<Rightarrow> show_int code));
                 c1 = (if \<not> headersSent c
                       then set_length (set_type c ''text'') (int (byteLength b)) else c)
             in Inr (res_end c1 (Text b)))
        else
          (case body c of
             Buf bytes \<Rightarrow> Inr (res_end c (Bytes bytes))
           | Str s \<Rightarrow> Inr (res_end c (Text s))
           | Stream h \<Rightarrow> Inr (res_end c (Piped h))
           | Struct j \<Rightarrow>
               let b = JSON_stringify j;
                   c1 = (if \<not> headersSent c then set_length c (int (byteLength b)) else c)
               in Inr (res_end c1 (Text b))
           | _ \<Rightarrow> Inr c))"

text \<open>
  \<open>handleRequest\<close>: the status starts at 404, the composed middleware runs, then
  \<open>handleResponse\<close>; a rejection of either goes to \<open>ctx.onerror\<close>.
\<close>

definition onerror ::
  "request_context pstate \<Rightarrow> thrown \<Rightarrow> request_context pstate" where
  "onerror s err =
     (case ctx_onerror (ctx s) (Some err) of Inl e \<Rightarrow> s | Inr c \<Rightarrow> s\<lparr>ctx := c\<rparr>)"

definition handleRequest ::
  "request_context async \<Rightarrow> request_context pstate \<Rightarrow> request_context pstate" where
  "handleRequest fnMiddleware s =
     (let s1 = s\<lparr>ctx := (ctx s)\<lparr>statusCode := 404\<rparr>\<rparr> in
      case fnMiddleware s1 of
        (s2, Inl err) \<Rightarrow> onerror s2 err
      | (s2, Inr _) \<Rightarrow>
          (case handleResponse (ctx s2) of
             Inl err \<Rightarrow> onerror s2 err
           | Inr c \<Rightarrow> s2\<lparr>ctx := c\<rparr>))"

text \<open>\<open>app.callback()\<close> applied to a request: compose once, then handle.\<close>

definition callback ::
  "request_context middleware list \<Rightarrow> request_context \<Rightarrow> request_context" where
  "callback middleware c =
     ctx (handleRequest (compose middleware None) \<lparr>cursors = (\<lambda>_. 0), fresh = 0, ctx = c\<rparr>)"

section \<open>The router (router.js)\<close>

text \<open>
  The options a layer is built with. The compiler of path patterns, \<open>pathToRegexp\<close>, is
  a dependency of the repository: it is a parameter \<open>compile\<close> of the functions that
  build layers, and gives for a pattern and the options the predicate on request paths.
  Named parameters, captures and route names that the router also keeps are not part of
  this model, nor is a host given as a regular expression.
\<close>

record layer_opts =
  opt_end :: bool
  opt_sensitive :: bool
  opt_strict :: bool
  opt_ignoreCaptures :: bool

type_synonym pathToRegexp = "string \<Rightarrow> layer_opts \<Rightarrow> string \<Rightarrow> bool"

record layer =
  layer_path :: string
  layer_methods :: "string list"
  layer_regexp :: "string \<Rightarrow> bool"
  layer_stack :: "request_context middleware list"
  layer_opts :: layer_opts

text \<open>
  The constructor of \<open>Layer\<close>: every method is pushed in upper case, and when the method
  just pushed is \<open>GET\<close>, \<open>HEAD\<close> is put in front of the list.
\<close>

definition push_method :: "string list \<Rightarrow> string \<Rightarrow> string list" where
  "push_method ms m =
     (let ms' = ms @ [toUpperCase m]
      in if last ms' = ''GET'' then ''HEAD'' # ms' else ms')"

definition new_Layer ::
  "pathToRegexp \<Rightarrow> string \<Rightarrow> string list \<Rightarrow> request_context middleware list \<Rightarrow> layer_opts
   \<Rightarrow> layer" where
  "new_Layer compile p ms middleware opts =
     \<lparr>layer_path = p, layer_methods = foldl push_method [] ms,
      layer_regexp = compile p opts, layer_stack = middleware, layer_opts = opts\<rparr>"

definition layer_match :: "layer \<Rightarrow> string \<Rightarrow> bool" where
  "layer_match l p = layer_regexp l p"

definition setPrefix :: "pathToRegexp \<Rightarrow> layer \<Rightarrow> string \<Rightarrow> layer" where
  "setPrefix compile l prefix =
     (if layer_path l \<noteq> [] then
        let p = (if layer_path l \<noteq> ''/'' \<or> opt_strict (layer_opts l)
                 then prefix @ layer_path l else prefix)
        in l\<lparr>layer_path := p, layer_regexp := compile p (layer_opts l)\<rparr>
      else l)"

record router =
  router_methods :: "string list"
  router_stack :: "layer list"
  router_exclusive :: bool
  router_host :: "string option"
  router_prefix :: string
  router_sensitive :: bool
  router_strict :: bool

text \<open>
  \<open>new Router(opts)\<close>: \<open>opts.methods\<close> or the default table of implemented methods.
\<close>

definition default_methods :: "string list" where
  "default_methods = [''HEAD'', ''OPTIONS'', ''GET'', ''PUT'', ''PATCH'', ''POST'', ''DELETE'']"

definition new_Router ::
  "string list option \<Rightarrow> bool \<Rightarrow> string option \<Rightarrow> string \<Rightarrow> bool \<Rightarrow> bool \<Rightarrow> router" where
  "new_Router ms exclusive h prefix sensitive strict =
     \<lparr>router_methods = (case ms of None \<Rightarrow> default_methods | Some l \<Rightarrow> l),
      router_stack = [], router_exclusive = exclusive, router_host = h,
      router_prefix = prefix, router_sensitive = sensitive, router_strict = strict\<rparr>"

text \<open>\<open>register\<close> for one path: build the layer, prefix it, push it on the stack.\<close>

definition register ::
  "pathToRegexp \<Rightarrow> router \<Rightarrow> string \<Rightarrow> string list \<Rightarrow> request_context middleware list
   \<Rightarrow> layer_opts \<Rightarrow> router" where
  "register compile r p ms middleware opts =
     (let route = new_Layer compile p ms middleware
            \<lparr>opt_end = opt_end opts,
             opt_sensitive = (opt_sensitive opts \<or> router_sensitive r),
             opt_strict = (opt_strict opts \<or> router_strict r),
             opt_ignoreCaptures = opt_ignoreCaptures opts\<rparr>;
          route' = (if router_prefix r \<noteq> [] then setPrefix compile route (router_prefix r)
                    else route)
      in r\<lparr>router_stack := router_stack r @ [route']\<rparr>)"

text \<open>
  \<open>router.get(path, ...)\<close>, \<open>router.put(path, ...)\<close> and the other verbs: \<open>register\<close>
  with the one method, in lower case as \<open>http.METHODS\<close> gives it, and no options.
\<close>

definition no_opts :: layer_opts where
  "no_opts = \<lparr>opt_end = True, opt_sensitive = False, opt_strict = False,
              opt_ignoreCaptures = False\<rparr>"

definition verb ::
  "pathToRegexp \<Rightarrow> string \<Rightarrow> router \<Rightarrow> string \<Rightarrow> request_context middleware list \<Rightarrow> router" where
  "verb compile m r p middleware = register compile r p [m] middleware no_opts"

text \<open>\<open>match(path, method)\<close>: the layers matched by path, and among them by method.\<close>

record match_result =
  matched_path :: "layer list"
  matched_pathAndMethod :: "layer list"
  matched_route :: bool

definition match_layer :: "string \<Rightarrow> string \<Rightarrow> layer \<Rightarrow> match_result \<Rightarrow> match_result" where
  "match_layer p m l res =
     (if layer_match l p then
        let res1 = res\<lparr>matched_path := matched_path res @ [l]\<rparr>
        in if layer_methods l = [] \<or> m \<in> set (layer_methods l) then
             let res2 = res1\<lparr>matched_pathAndMethod := matched_pathAndMethod res1 @ [l]\<rparr>
             in if layer_methods l \<noteq> [] then res2\<lparr>matched_route := True\<rparr> else res2
           else res1
      else res)"

definition match :: "router \<Rightarrow> string \<Rightarrow> string \<Rightarrow> match_result" where
  "match r p m =
     fold (match_layer p m) (router_stack r)
       \<lparr>matched_path = [], matched_pathAndMethod = [], matched_route = False\<rparr>"

definition matchHost :: "router \<Rightarrow> string \<Rightarrow> bool" where
  "matchHost r input =
     (case router_host r of
        None \<Rightarrow> True
      | Some h \<Rightarrow> if input = [] then False else input = h)"

definition layer_ref_of :: "layer \<Rightarrow> layer_ref" where
  "layer_ref_of l = \<lparr>ref_path = layer_path l, ref_methods = layer_methods l\<rparr>"

text \<open>
  The middleware that \<open>routes()\<close> returns. The step it puts in front of the stack of
  every matched layer stores captures and parameters on the context and calls
  \<open>next()\<close>; on the state of this model it is \<open>next\<close> itself.
\<close>

definition layer_chain :: "layer list \<Rightarrow> request_context middleware list" where
  "layer_chain ls = concat (map (\<lambda>l. (\<lambda>next. next) # layer_stack l) ls)"

definition routes :: "router \<Rightarrow> request_context middleware" where
  "routes r next s =
     (if \<not> matchHost r (host (ctx s)) then next s
      else
        let p = path (ctx s);
            m = match r p (req_method (ctx s));
            refs = map layer_ref_of (matched_path m);
            s1 = s\<lparr>ctx := (ctx s)\<lparr>matched :=
                   (case matched (ctx s) of
                      Some old \<Rightarrow> Some (old @ refs)
                    | None \<Rightarrow> Some refs)\<rparr>\<rparr>
        in if \<not> matched_route m then next s1
           else
             let matchedLayers = matched_pathAndMethod m;
                 mostSpecificLayer = last matchedLayers
             in compose
                  (layer_chain (if router_exclusive r then [mostSpecificLayer] else matchedLayers))
                  (Some (\<lambda>_. next)) s1)"

text \<open>
  \<open>allowedMethods(options)\<close>: after the rest of the pipeline has fulfilled, fill in the
  answer for a request that no route took. \<open>allowed\<close> is an object used as an ordered
  set: its keys come out in the order of first insertion.
\<close>

record allowed_options =
  opt_throw :: bool
  opt_notImplemented :: "thrown option"
  opt_methodNotAllowed :: "thrown option"

definition http_error :: "int \<Rightarrow> string \<Rightarrow> thrown" where
  "http_error code msg =
     ErrorV ((new_Error msg)\<lparr>err_status := NumV code, err_statusCode := NumV code,
                             err_expose := (code < 500)\<rparr>)"

definition insert_key :: "string \<Rightarrow> string list \<Rightarrow> string list" where
  "insert_key k ks = (if k \<in> set ks then ks else ks @ [k])"

definition allowed_keys :: "layer_ref list \<Rightarrow> string list" where
  "allowed_keys ms = fold insert_key (concat (map ref_methods ms)) []"

definition allowedMethods_then ::
  "string list \<Rightarrow> allowed_options \<Rightarrow> request_context \<Rightarrow> thrown + request_context" where
  "allowedMethods_then implemented options c =
     (if statusCode c = 0 \<or> statusCode c = 404 then
        (case matched c of
           None \<Rightarrow> Inl (ErrorV (new_Error
                    ''Cannot read properties of undefined (reading 'length')''))
         | Some ms \<Rightarrow>
             let allowedArr = allowed_keys ms in
             if req_method c \<notin> set implemented then
               (if opt_throw options then
                  Inl (case opt_notImplemented options of
                         Some e \<Rightarrow> e
                       | None \<Rightarrow> http_error 501 ''Not Implemented'')
                else
                  (case set_status c 501 of
                     Inl e \<Rightarrow> Inl e
                   | Inr c1 \<Rightarrow> Inr (set_header c1 ''Allow'' (join '', '' allowedArr))))
             else if allowedArr \<noteq> [] then
               (if req_method c = ''OPTIONS'' then
                  (case set_status c 200 of
                     Inl e \<Rightarrow> Inl e
                   | Inr c1 \<Rightarrow>
                       (case set_body c1 (Str []) of
                          Inl e \<Rightarrow> Inl e
                        | Inr c2 \<Rightarrow> Inr (set_header c2 ''Allow'' (join '', '' allowedArr))))
                else if \<not> (req_method c \<in> set allowedArr \<and> req_method c \<noteq> []) then
                  (if opt_throw options then
                     Inl (case opt_methodNotAllowed options of
                            Some e \<Rightarrow> e
                          | None \<Rightarrow> http_error 405 ''Method Not Allowed'')
                   else
                     (case set_status c 405 of
                        Inl e \<Rightarrow> Inl e
                      | Inr c1 \<Rightarrow> Inr (set_header c1 ''Allow'' (join '', '' allowedArr))))
                else Inr c)
             else Inr c)
      else Inr c)"

definition allowedMethods :: "router \<Rightarrow> allowed_options \<Rightarrow> request_context middleware" where
  "allowedMethods r options next s =
     (case next s of
        (s', Inl e) \<Rightarrow> (s', Inl e)
      | (s', Inr _) \<Rightarrow>
          (case allowedMethods_then (router_methods r) options (ctx s') of
             Inl e \<Rightarrow> (s', Inl e)
           | Inr c \<Rightarrow> (s'\<lparr>ctx := c\<rparr>, Inr ())))"

definition no_options :: allowed_options where
  "no_options = \<lparr>opt_throw = False, opt_notImplemented = None, opt_methodNotAllowed = None\<rparr>"

section \<open>Requests used in the properties\<close>

text \<open>
  Two steps of a middleware: \<open>ctx.body = null; ctx.status = 404\<close>, and the same two
  assignments the other way round.
\<close>

definition null_then_404 :: "request_context stmt" where
  "null_then_404 = Act (\<lambda>c. set_body c Null) (Act (\<lambda>c. set_status c 404) Return)"

definition status_404_then_null :: "request_context stmt" where
  "status_404_then_null = Act (\<lambda>c. set_status c 404) (Act (\<lambda>c. set_body c Null) Return)"

text \<open>The headers of an error object, as a map by lower-cased name.\<close>

definition error_headers :: "error_obj \<Rightarrow> (string \<rightharpoonup> string)" where
  "error_headers err =
     (case err_headers err of
        None \<Rightarrow> Map.empty
      | Some kvs \<Rightarrow> fold (\<lambda>(k, v) m. m(toLowerCase k \<mapsto> v)) kvs Map.empty)"

text \<open>
  The status and a header of the context that an operation returns, if it returns one.
\<close>

definition result_status :: "thrown + request_context \<Rightarrow> int option" where
  "result_status r = (case r of Inl e \<Rightarrow> None | Inr c \<Rightarrow> Some (statusCode c))"

definition result_header :: "thrown + request_context \<Rightarrow> string \<Rightarrow> string option" where
  "result_header r field = (case r of Inl e \<Rightarrow> None | Inr c \<Rightarrow> get_header c field)"

text \<open>
  A request on the way: a \<open>GET\<close> whose response still has the initial 404 of
  \<open>handleRequest\<close>, and the same after a middleware has set a content type and
  flushed the headers.
\<close>

definition pending_context :: request_context where
  "pending_context = (createContext ''GET'' ''/'' ''localhost'' 1)\<lparr>statusCode := 404\<rparr>"

definition flushed_context :: request_context where
  "flushed_context =
     pending_context\<lparr>headers := [''content-type'' \<mapsto> ''text/plain; charset=utf-8''],
                      headersSent := True\<rparr>"

text \<open>Errors: one that may be shown to the client, and a missing file with a status.\<close>

definition teapot_error :: error_obj where
  "teapot_error = (new_Error ''boom'')\<lparr>err_status := NumV 418, err_expose := True,
                    err_headers := Some [(''X-New-Header'', ''Value'')]\<rparr>"

definition forbidden_enoent :: error_obj where
  "forbidden_enoent =
     (new_Error ''no such file'')\<lparr>err_status := NumV 403, err_code := Some ''ENOENT''\<rparr>"

text \<open>
  The router of the example: \<open>router.get("/users", ...)\<close> and
  \<open>router.put("/users", ...)\<close> on a router built without options, and the application
  that uses its \<open>routes()\<close> and then its \<open>allowedMethods()\<close>.
\<close>

definition users_router ::
  "pathToRegexp \<Rightarrow> request_context middleware list \<Rightarrow> request_context middleware list
   \<Rightarrow> router" where
  "users_router compile get_handlers put_handlers =
     verb compile ''put''
       (verb compile ''get'' (new_Router None False None [] False False) ''/users'' get_handlers)
       ''/users'' put_handlers"

definition users_app ::
  "pathToRegexp \<Rightarrow> request_context middleware list \<Rightarrow> request_context middleware list
   \<Rightarrow> request_context \<Rightarrow> request_context" where
  "users_app compile get_handlers put_handlers =
     callback [routes (users_router compile get_handlers put_handlers),
               allowedMethods (users_router compile get_handlers put_handlers) no_options]"

text \<open>What \<open>routes()\<close> of that router leaves in \<open>ctx.matched\<close> for a request path.\<close>

definition users_refs :: "pathToRegexp \<Rightarrow> string \<Rightarrow> layer_ref list" where
  "users_refs compile p =
     (if compile ''/users'' no_opts p
      then [\<lparr>ref_path = ''/users'', ref_methods = [''HEAD'', ''GET'']\<rparr>,
            \<lparr>ref_path = ''/users'', ref_methods = [''PUT'']\<rparr>]
      else [])"

text \<open>A compiler of patterns that takes every pattern literally.\<close>

definition literal_path :: pathToRegexp where
  "literal_path pattern opts p = (p = pattern)"

section \<open>The proxy: passes on the backend response (web.out.js)\<close>

subsection \<open>URLs\<close>

text \<open>
  The redirect pass reads the target and the \<open>Location\<close> header with \<open>parse\<close> of Node's
  \<open>url\<close> module and writes the header with the \<open>format\<close> method of the parsed object.
  The module is a dependency of the repository: the pass takes the two functions as
  the parameters \<open>parse\<close> and \<open>format\<close>, over the fields of a parsed URL below. A missing
  component is \<open>None\<close> (\<open>null\<close> in Node).
\<close>

record url =
  url_protocol :: "string option"
  url_slashes :: bool
  url_auth :: "string option"
  url_host :: "string option"
  url_port :: "string option"
  url_hostname :: "string option"
  url_hash :: "string option"
  url_search :: "string option"
  url_pathname :: "string option"

type_synonym url_parser = "string \<Rightarrow> url"

type_synonym url_formatter = "url \<Rightarrow> string"

text \<open>
  What the two functions do is written down for plain web URLs only, to have the URLs
  of the examples: \<open>url_parse\<close> is defined on the strings
  \<open>scheme://hostname[:port][/path][?query][#fragment]\<close> whose scheme is \<open>http\<close> or
  \<open>https\<close> in any case, whose host name is made of non-empty labels of letters and
  digits, at most 63 characters each and at most 255 with the dots, whose port is a
  non-empty run of digits, and whose path, query and fragment are made of letters, digits
  and \<open>-._~/\<close> (the query also of \<open>=\<close> and \<open>&\<close>). On these the scheme and the host name
  are lower-cased, \<open>host\<close> is the host name with the port, and a missing path is \<open>/\<close>.
  Every other string is outside the description: credentials, escaping, other schemes,
  relative references, internationalised names.
\<close>

definition is_digit :: "char \<Rightarrow> bool" where
  "is_digit ch = (ch \<in> set ''0123456789'')"

definition is_alnum :: "char \<Rightarrow> bool" where
  "is_alnum ch = (ch \<in> set ascii_lower \<or> ch \<in> set ascii_upper \<or> is_digit ch)"

definition is_scheme_char :: "char \<Rightarrow> bool" where
  "is_scheme_char ch = (is_alnum ch \<or> ch \<in> set ''+.-'')"

definition is_path_char :: "char \<Rightarrow> bool" where
  "is_path_char ch = (is_alnum ch \<or> ch \<in> set ''-._~/'')"

definition is_query_char :: "char \<Rightarrow> bool" where
  "is_query_char ch = (is_path_char ch \<or> ch \<in> set ''=&'')"

fun split_on :: "char \<Rightarrow> string \<Rightarrow> string list" where
  "split_on d [] = [[]]"
| "split_on d (ch # t) =
     (if ch = d then [] # split_on d t
      else (case split_on d t of
              [] \<Rightarrow> [[ch]]
            | l # ls \<Rightarrow> (ch # l) # ls))"

definition is_hostname :: "string \<Rightarrow> bool" where
  "is_hostname h =
     (length h \<le> 255
      \<and> list_all (\<lambda>l. l \<noteq> [] \<and> length l \<le> 63 \<and> list_all is_alnum l)
            (split_on CHR ''.'' h))"

definition nonempty :: "string \<Rightarrow> string option" where
  "nonempty s = (if s = [] then None else Some s)"

definition url_parse :: "string \<Rightarrow> url option" where
  "url_parse s =
     (let before_hash = takeWhile (\<lambda>ch. ch \<noteq> CHR ''#'') s;
          hash = dropWhile (\<lambda>ch. ch \<noteq> CHR ''#'') s;
          before_query = takeWhile (\<lambda>ch. ch \<noteq> CHR ''?'') before_hash;
          search = dropWhile (\<lambda>ch. ch \<noteq> CHR ''?'') before_hash;
          scheme = toLowerCase (takeWhile is_scheme_char before_query);
          rest = dropWhile is_scheme_char before_query;
          authority = takeWhile (\<lambda>ch. ch \<noteq> CHR ''/'') (drop 3 rest);
          p = dropWhile (\<lambda>ch. ch \<noteq> CHR ''/'') (drop 3 rest);
          hostname = takeWhile (\<lambda>ch. ch \<noteq> CHR '':'') authority;
          colon_port = dropWhile (\<lambda>ch. ch \<noteq> CHR '':'') authority
      in if scheme \<in> set [''http'', ''https''] \<and> take 3 rest = ''://''
            \<and> is_hostname hostname
            \<and> (colon_port = [] \<or> (tl colon_port \<noteq> [] \<and> list_all is_digit (tl colon_port)))
            \<and> list_all is_path_char p
            \<and> list_all is_query_char (drop 1 search)
            \<and> list_all is_path_char (drop 1 hash)
         then Some
           \<lparr>url_protocol = Some (scheme @ '':''), url_slashes = True, url_auth = None,
            url_host = Some (toLowerCase hostname @ colon_port),
            url_port = (if colon_port = [] then None else Some (tl colon_port)),
            url_hostname = Some (toLowerCase hostname),
            url_hash = nonempty hash, url_search = nonempty search,
            url_pathname = Some (if p = [] then ''/'' else p)\<rparr>
         else None)"

definition text_of :: "string option \<Rightarrow> string" where
  "text_of v = (case v of None \<Rightarrow> [] | Some s \<Rightarrow> s)"

definition truthy_string :: "string option \<Rightarrow> bool" where
  "truthy_string v = (case v of None \<Rightarrow> False | Some s \<Rightarrow> s \<noteq> [])"

text \<open>
  \<open>url_format\<close> is defined on the objects that have the slashes, no credentials and a
  \<open>host\<close>, with no \<open>?\<close> or \<open>#\<close> in the path and no \<open>#\<close> in the query: the text is the
  scheme with its colon, \<open>//\<close>, the \<open>host\<close> as it stands, and the path, the query and the
  fragment, each with its leading character put in front when it is missing.
\<close>

definition lead :: "char \<Rightarrow> string \<Rightarrow> string" where
  "lead ch s = (if s \<noteq> [] \<and> hd s \<noteq> ch then ch # s else s)"

definition url_format :: "url \<Rightarrow> string option" where
  "url_format u =
     (let protocol0 = text_of (url_protocol u);
          protocol = (if protocol0 \<noteq> [] \<and> last protocol0 \<noteq> CHR '':''
                      then protocol0 @ '':'' else protocol0);
          pathname = text_of (url_pathname u);
          search = text_of (url_search u)
      in if url_slashes u \<and> \<not> truthy_string (url_auth u) \<and> truthy_string (url_host u)
            \<and> CHR ''?'' \<notin> set pathname \<and> CHR ''#'' \<notin> set pathname
            \<and> CHR ''#'' \<notin> set search
         then Some (protocol @ ''//'' @ text_of (url_host u) @ lead CHR ''/'' pathname
                    @ lead CHR ''?'' search @ lead CHR ''#'' (text_of (url_hash u)))
         else None)"

text \<open>
  A parser and a formatter are those of Node as far as the description goes when they
  agree with it wherever it is defined.
\<close>

definition node_url :: "url_parser \<Rightarrow> url_formatter \<Rightarrow> bool" where
  "node_url parse format =
     ((\<forall>s u. url_parse s = Some u \<longrightarrow> parse s = u)
      \<and> (\<forall>u s. url_format u = Some s \<longrightarrow> format u = s))"

text \<open>The least such pair: nothing outside the description.\<close>

definition null_url :: url where
  "null_url =
     \<lparr>url_protocol = None, url_slashes = False, url_auth = None, url_host = None,
      url_port = None, url_hostname = None, url_hash = None, url_search = None,
      url_pathname = None\<rparr>"

definition plain_parse :: url_parser where
  "plain_parse s = (case url_parse s of Some u \<Rightarrow> u | None \<Rightarrow> null_url)"

definition plain_format :: url_formatter where
  "plain_format u = (case url_format u of Some s \<Rightarrow> s | None \<Rightarrow> [])"

subsection \<open>\<open>setRedirectHostRewrite\<close>\<close>

text \<open>
  The options of the proxy that the pass reads, with the target as the text of its URL,
  the response of the backend, and the headers of the inbound request by lower-cased
  name.
\<close>

record proxy_options =
  target :: string
  hostRewrite :: "string option"
  autoRewrite :: bool
  protocolRewrite :: "string option"

record proxy_response =
  proxy_statusCode :: nat
  proxy_headers :: "string \<rightharpoonup> string"

text \<open>
  \<open>redirectRegex = /^201|30([1278])$/\<close> on the decimal text of the status code: the
  text starts with \<open>201\<close>, or it ends with \<open>301\<close>, \<open>302\<close>, \<open>307\<close> or \<open>308\<close>.
\<close>

definition redirectRegex_test :: "string \<Rightarrow> bool" where
  "redirectRegex_test s =
     (take 3 s = ''201''
      \<or> (3 \<le> length s
          \<and> drop (length s - 3) s \<in> set [''301'', ''302'', ''307'', ''308'']))"

definition setRedirectHostRewrite ::
  "url_parser \<Rightarrow> url_formatter \<Rightarrow> (string \<rightharpoonup> string) \<Rightarrow> proxy_response
   \<Rightarrow> proxy_options \<Rightarrow> proxy_response" where
  "setRedirectHostRewrite parse format req_headers proxyRes options =
     (if (truthy_string (hostRewrite options) \<or> autoRewrite options
            \<or> truthy_string (protocolRewrite options))
         \<and> truthy_string (proxy_headers proxyRes ''location'')
         \<and> redirectRegex_test (show_nat (proxy_statusCode proxyRes))
      then
        let tgt = parse (target options);
            u = parse (text_of (proxy_headers proxyRes ''location''))
        in if url_host tgt \<noteq> url_host u then proxyRes
           else
             let u1 = (if truthy_string (hostRewrite options)
                       then u\<lparr>url_host := hostRewrite options\<rparr>
                       else if autoRewrite options
                         then u\<lparr>url_host := req_headers ''host''\<rparr>
                       else u);
                 u2 = (if truthy_string (protocolRewrite options)
                       then u1\<lparr>url_protocol := protocolRewrite options\<rparr> else u1)
             in proxyRes\<lparr>proxy_headers :=
                  (proxy_headers proxyRes)(''location'' \<mapsto> format u2)\<rparr>
      else proxyRes)"

section \<open>The proxy: cookie attributes (shared.js)\<close>

text \<open>
  The rewrite configuration is a JavaScript object written as a literal: its own
  properties map a domain or path, or \<open>*\<close>, to the new value or to \<open>null\<close>. The
  operator \<open>in\<close> and the property read also see what every object inherits from
  \<open>Object.prototype\<close>: functions under eleven names, and the prototype itself under
  \<open>__proto__\<close>.
\<close>

datatype jsvalue = JString string | JNull | JFunction string | JObjectValue

definition object_prototype :: "(string \<times> jsvalue) list" where
  "object_prototype =
     map (\<lambda>name. (name, JFunction (''function '' @ name @ ''() { [native code] }'')))
       [''__defineGetter__'', ''__defineSetter__'', ''hasOwnProperty'', ''__lookupGetter__'',
        ''__lookupSetter__'', ''isPrototypeOf'', ''propertyIsEnumerable'', ''toString'',
        ''valueOf'', ''toLocaleString'']
     @ [(''constructor'', JFunction ''function Object() { [native code] }''),
        (''__proto__'', JObjectValue)]"

type_synonym rewrite_config = "string \<rightharpoonup> string option"

definition property_in :: "string \<Rightarrow> rewrite_config \<Rightarrow> bool" where
  "property_in key config = (config key \<noteq> None \<or> map_of object_prototype key \<noteq> None)"

definition property_get :: "rewrite_config \<Rightarrow> string \<Rightarrow> jsvalue" where
  "property_get config key =
     (case config key of
        Some (Some s) \<Rightarrow> JString s
      | Some None \<Rightarrow> JNull
      | None \<Rightarrow> (case map_of object_prototype key of Some v \<Rightarrow> v | None \<Rightarrow> JNull))"

fun truthy_value :: "jsvalue \<Rightarrow> bool" where
  "truthy_value (JString s) = (s \<noteq> [])"
| "truthy_value JNull = False"
| "truthy_value (JFunction src) = True"
| "truthy_value JObjectValue = True"

fun String_of :: "jsvalue \<Rightarrow> string" where
  "String_of (JString s) = s"
| "String_of JNull = ''null''"
| "String_of (JFunction src) = src"
| "String_of JObjectValue = ''[object Object]''"

text \<open>
  A match of \<open>/(;\s*property=)([^;]+)/i\<close> at the head of a string, for a property
  name of letters: the prefix group, the value group and what follows the match.
\<close>

definition match_here :: "string \<Rightarrow> string \<Rightarrow> (string \<times> string \<times> string) option" where
  "match_here property s =
     (case s of
        [] \<Rightarrow> None
      | ch # t \<Rightarrow>
          let ws = takeWhile is_space t;
              t1 = dropWhile is_space t;
              name = take (length property) t1;
              t2 = drop (length property) t1;
              v = takeWhile (\<lambda>x. x \<noteq> CHR '';'') (drop 1 t2)
          in if ch = CHR '';'' \<and> toLowerCase name = toLowerCase property
                \<and> take 1 t2 = ''='' \<and> v \<noteq> []
             then Some (ch # ws @ name @ ''='', v, dropWhile (\<lambda>x. x \<noteq> CHR '';'') (drop 1 t2))
             else None)"

text \<open>The leftmost match: what stands before it, its two groups, and the rest.\<close>

fun first_match :: "string \<Rightarrow> string \<Rightarrow> (string \<times> string \<times> string \<times> string) option" where
  "first_match property [] = None"
| "first_match property (ch # t) =
     (case match_here property (ch # t) of
        Some (prefix, previousValue, rest) \<Rightarrow> Some ([], prefix, previousValue, rest)
      | None \<Rightarrow>
          (case first_match property t of
             None \<Rightarrow> None
           | Some (before, prefix, previousValue, rest) \<Rightarrow>
               Some (ch # before, prefix, previousValue, rest)))"

text \<open>The replacement function of \<open>rewriteCookieProperty\<close> for one match.\<close>

definition replacement :: "rewrite_config \<Rightarrow> string \<Rightarrow> string \<Rightarrow> string" where
  "replacement config prefix previousValue =
     (if property_in previousValue config then
        let newValue = property_get config previousValue
        in if truthy_value newValue then prefix @ String_of newValue else []
      else if property_in ''*'' config then
        let newValue = property_get config ''*''
        in if truthy_value newValue then prefix @ String_of newValue else []
      else prefix @ previousValue)"

definition rewriteCookieProperty_string :: "string \<Rightarrow> rewrite_config \<Rightarrow> string \<Rightarrow> string" where
  "rewriteCookieProperty_string header config property =
     (case first_match property header of
        None \<Rightarrow> header
      | Some (before, prefix, previousValue, rest) \<Rightarrow>
          before @ replacement config prefix previousValue @ rest)"

text \<open>A header is one string or an array of strings; an array is rewritten by element.\<close>

datatype header_value = Single string | Several "string list"

fun rewriteCookieProperty :: "header_value \<Rightarrow> rewrite_config \<Rightarrow> string \<Rightarrow> header_value" where
  "rewriteCookieProperty (Several hs) config property =
     Several (map (\<lambda>headerElement. rewriteCookieProperty_string headerElement config property) hs)"
| "rewriteCookieProperty (Single h) config property =
     Single (rewriteCookieProperty_string h config property)"

section \<open>Properties of the composed pipeline\<close>

lemma recorders_nth:
  "k < length styles \<Longrightarrow> recorders styles ! k = exec (recorder (styles ! k) k)"
  by (simp add: recorders_def)

lemma length_recorders [simp]: "length (recorders styles) = length styles"
  by (simp add: recorders_def)

lemma exec_recorder:
  "next (s\<lparr>ctx := ctx s @ [i]\<rparr>) = (s', Inr ()) \<Longrightarrow>
   exec (recorder st i) next s = (s'\<lparr>ctx := ctx s' @ [i]\<rparr>, Inr ())"
  by (cases st) (simp_all add: push_def)

text \<open>
  From step \<open>k\<close> on, the recorders push \<open>k, ..., N-1\<close> on the way in and
  \<open>N-1, ..., k\<close> on the way out, and the cursor ends at \<open>N\<close>.
\<close>

lemma dispatch_recorders:
  "k \<le> length styles \<Longrightarrow> cursors s a < int k \<Longrightarrow>
   dispatch a (recorders styles) None k s =
     (s\<lparr>cursors := (cursors s)(a := int (length styles)),
        ctx := ctx s @ [k ..< length styles] @ rev [k ..< length styles]\<rparr>, Inr ())"
proof (induction "length styles - k" arbitrary: k s)
  case 0
  then have k: "k = length styles" by simp
  show ?case using "0.prems" by (subst dispatch.simps) (simp add: k)
next
  case (Suc n)
  then have lt: "k < length styles" by simp
  define s' where "s' = s\<lparr>cursors := (cursors s)(a := int k)\<rparr>"
  define s1 where "s1 = s'\<lparr>ctx := ctx s' @ [k]\<rparr>"
  define s2 where "s2 = s1\<lparr>cursors := (cursors s1)(a := int (length styles)),
        ctx := ctx s1 @ [Suc k ..< length styles] @ rev [Suc k ..< length styles]\<rparr>"
  have "cursors s1 a < int (Suc k)" by (simp add: s1_def s'_def)
  then have ih: "dispatch a (recorders styles) None (Suc k) s1 = (s2, Inr ())"
    unfolding s2_def using Suc.hyps(1) [of "Suc k" s1] Suc.hyps(2) lt by simp
  have ex: "exec (recorder (styles ! k) k) (dispatch a (recorders styles) None (Suc k)) s' =
     (s2\<lparr>ctx := ctx s2 @ [k]\<rparr>, Inr ())"
    using ih unfolding s1_def by (rule exec_recorder)
  have up: "[k ..< length styles] = k # [Suc k ..< length styles]"
    using lt by (simp add: upt_conv_Cons)
  have "dispatch a (recorders styles) None k s =
      exec (recorder (styles ! k) k) (dispatch a (recorders styles) None (Suc k)) s'"
    using Suc.prems lt by (subst dispatch.simps) (simp add: recorders_nth s'_def)
  also have "\<dots> = (s2\<lparr>ctx := ctx s2 @ [k]\<rparr>, Inr ())" by (rule ex)
  also have "s2\<lparr>ctx := ctx s2 @ [k]\<rparr> = s\<lparr>cursors := (cursors s)(a := int (length styles)),
        ctx := ctx s @ [k ..< length styles] @ rev [k ..< length styles]\<rparr>"
    by (simp add: s2_def s1_def s'_def up)
  finally show ?case .
qed

text \<open>
  C1. For every list of \<open>N\<close> recording steps, each written in either style, the composed
  function fulfils and the context has received \<open>0, 1, ..., N-1\<close> followed by
  \<open>N-1, ..., 1, 0\<close>: steps run in registration order on entry and the code after
  \<open>next()\<close> runs in reverse order on exit.
\<close>

theorem compose_onion_order:
  "ctx (fst (compose (recorders styles) None s)) =
     ctx s @ [0 ..< length styles] @ rev [0 ..< length styles]
   \<and> snd (compose (recorders styles) None s) = Inr ()"
  by (simp add: compose_def Let_def dispatch_recorders)

text \<open>The cursor of a pipeline never moves backwards while a step body runs.\<close>

lemma exec_cursor_mono:
  "(\<And>t. cursors t a \<le> cursors (fst (next t)) a) \<Longrightarrow>
   cursors s a \<le> cursors (fst (exec b next s)) a"
proof (induction b arbitrary: s)
  case (Act f k)
  show ?case
  proof (cases "f (ctx s)")
    case (Inl e) then show ?thesis by simp
  next
    case (Inr c')
    then show ?thesis using Act.IH [OF Act.prems, of "s\<lparr>ctx := c'\<rparr>"] by simp
  qed
next
  case (AwaitNext k)
  obtain s' r where n: "next s = (s', r)" by (cases "next s")
  have 1: "cursors s a \<le> cursors s' a" using AwaitNext.prems [of s] n by simp
  show ?case
  proof (cases r)
    case (Inl e) then show ?thesis using n 1 by simp
  next
    case (Inr u)
    then show ?thesis using n 1 AwaitNext.IH [OF AwaitNext.prems, of s'] by simp
  qed
next
  case (ThenNext k)
  obtain s' r where n: "next s = (s', r)" by (cases "next s")
  have 1: "cursors s a \<le> cursors s' a" using ThenNext.prems [of s] n by simp
  show ?case
  proof (cases r)
    case (Inl e) then show ?thesis using n 1 by simp
  next
    case (Inr u)
    then show ?thesis using n 1 ThenNext.IH [OF ThenNext.prems, of s'] by simp
  qed
next
  case (TryNext k h)
  obtain s' r where n: "next s = (s', r)" by (cases "next s")
  have 1: "cursors s a \<le> cursors s' a" using TryNext.prems [of s] n by simp
  show ?case
  proof (cases r)
    case (Inl e)
    then show ?thesis using n 1 TryNext.IH(2) [OF TryNext.prems, of s'] by simp
  next
    case (Inr u)
    then show ?thesis using n 1 TryNext.IH(1) [OF TryNext.prems, of s'] by simp
  qed
qed simp_all

lemma dispatch_cursor_mono:
  "cursors s a \<le> cursors (fst (dispatch a (map exec bodies) (map_option exec outer) k s)) a"
proof (induction "Suc (length bodies) - k" arbitrary: k s)
  case 0
  then show ?case by (subst dispatch.simps) (simp add: Let_def)
next
  case (Suc n)
  have ih: "\<And>t. cursors t a
      \<le> cursors (fst (dispatch a (map exec bodies) (map_option exec outer) (Suc k) t)) a"
    using Suc.hyps(1) [of "Suc k"] Suc.hyps(2) by simp
  show ?case
  proof (cases "int k \<le> cursors s a")
    case True
    then show ?thesis by (subst dispatch.simps) simp
  next
    case False
    define s' where "s' = s\<lparr>cursors := (cursors s)(a := int k)\<rparr>"
    have le: "cursors s a \<le> cursors s' a" using False by (simp add: s'_def)
    have step: "\<And>b. cursors s' a \<le> cursors (fst (exec b
        (dispatch a (map exec bodies) (map_option exec outer) (Suc k)) s')) a"
      by (rule exec_cursor_mono) (rule ih)
    have fin: "\<And>b. cursors s a \<le> cursors (fst (exec b
        (dispatch a (map exec bodies) (map_option exec outer) (Suc k)) s')) a"
      using le step order_trans by blast
    show ?thesis
    proof (cases outer)
      case None
      then show ?thesis
        using False le fin [of "bodies ! k"]
        by (subst dispatch.simps) (simp add: Let_def s'_def)
    next
      case (Some ob)
      then show ?thesis
        using False le fin [of "bodies ! k"] fin [of ob]
        by (subst dispatch.simps) (auto simp: Let_def s'_def)
    qed
  qed
qed

text \<open>Once \<open>dispatch(k)\<close> has been called, the cursor is at least \<open>k\<close>.\<close>

lemma dispatch_cursor_reached:
  "int k \<le> cursors (fst (dispatch a (map exec bodies) (map_option exec outer) k s)) a"
proof (cases "int k \<le> cursors s a")
  case True
  then show ?thesis by (subst dispatch.simps) simp
next
  case False
  define s' where "s' = s\<lparr>cursors := (cursors s)(a := int k)\<rparr>"
  have eq: "cursors s' a = int k" by (simp add: s'_def)
  have step: "\<And>b. cursors s' a \<le> cursors (fst (exec b
      (dispatch a (map exec bodies) (map_option exec outer) (Suc k)) s')) a"
    by (rule exec_cursor_mono) (rule dispatch_cursor_mono)
  have fin: "\<And>b. int k \<le> cursors (fst (exec b
      (dispatch a (map exec bodies) (map_option exec outer) (Suc k)) s')) a"
    using eq step by simp
  show ?thesis
  proof (cases outer)
    case None
    then show ?thesis
      using False fin [of "bodies ! k"]
      by (subst dispatch.simps) (simp add: Let_def s'_def)
  next
    case (Some ob)
    then show ?thesis
      using False fin [of "bodies ! k"] fin [of ob]
      by (subst dispatch.simps) (auto simp: Let_def s'_def)
  qed
qed

text \<open>
  C2. In every pipeline of step bodies, with or without an outer \<open>next\<close>, the
  continuation of step \<open>i\<close> is \<open>dispatch (i + 1)\<close>. After it has been invoked once from
  any state, a second invocation, after the step has done whatever it does to the
  context, is rejected with the error \<open>next() called multiple times\<close> and leaves the
  state as it found it: no downstream step runs again.
\<close>

theorem next_twice_rejected:
  "dispatch a (map exec bodies) (map_option exec outer) (Suc i)
     ((fst (dispatch a (map exec bodies) (map_option exec outer) (Suc i) s))\<lparr>ctx := c\<rparr>) =
   ((fst (dispatch a (map exec bodies) (map_option exec outer) (Suc i) s))\<lparr>ctx := c\<rparr>,
    Inl (ErrorV (new_Error ''next() called multiple times'')))"
  using dispatch_cursor_reached [of "Suc i" a bodies outer s]
  by (subst dispatch.simps) (simp add: multiple_times_def)

text \<open>
  The test of the repository: one step that awaits \<open>next()\<close> twice; the composed
  function rejects with that error.
\<close>

lemma compose_double_next:
  "snd (compose [exec (AwaitNext (AwaitNext Return))] None s) =
     Inl (ErrorV (new_Error ''next() called multiple times''))"
  by (simp add: compose_def Let_def dispatch.simps multiple_times_def)

section \<open>Properties of the response\<close>

subsection \<open>Evaluation of names and tables\<close>

lemma lower_names [simp]:
  "toLowerCase ''Content-Type'' = ''content-type''"
  "toLowerCase ''Content-Length'' = ''content-length''"
  "toLowerCase ''Transfer-Encoding'' = ''transfer-encoding''"
  "toLowerCase ''Allow'' = ''allow''"
  by (simp_all add: toLowerCase_def toLowerChar_def ascii_upper_def ascii_lower_def)

lemma statuses_empty_simps [simp]:
  "\<not> statuses_empty 200" "statuses_empty 204" "statuses_empty 205" "statuses_empty 304"
  "\<not> statuses_empty 404" "\<not> statuses_empty 405" "\<not> statuses_empty 500"
  "\<not> statuses_empty 501"
  by (simp_all add: statuses_empty_def)

lemma status_codes_range: "list_all (\<lambda>(n, m). 100 \<le> n \<and> n \<le> 999) status_codes"
  by (simp add: status_codes_def)

lemma statuses_message_range:
  assumes "statuses_message n = Some m"
  shows "100 \<le> n \<and> n \<le> 999"
proof -
  have "(n, m) \<in> set status_codes"
    using assms unfolding statuses_message_def by (rule map_of_SomeD)
  then show ?thesis
    using status_codes_range by (auto simp: list_all_iff)
qed

lemma statuses_message_simps [simp]:
  "statuses_message 200 = Some ''OK''"
  "statuses_message 204 = Some ''No Content''"
  "statuses_message 404 = Some ''Not Found''"
  "statuses_message 405 = Some ''Method Not Allowed''"
  "statuses_message 500 = Some ''Internal Server Error''"
  "statuses_message 501 = Some ''Not Implemented''"
  by (simp_all add: statuses_message_def status_codes_def)

lemma show_int_0 [simp]: "show_int 0 = ''0''"
  by (simp add: show_int_def show_nat.simps digit_char_def)

subsection \<open>Header operations\<close>

lemma remove_header_eq:
  "remove_header c f =
     c\<lparr>headers := (if headersSent c then headers c else (headers c)(toLowerCase f := None))\<rparr>"
  by (simp add: remove_header_def res_removeHeader_def)

lemma set_header_eq:
  "set_header c f v =
     c\<lparr>headers := (if headersSent c then headers c else (headers c)(toLowerCase f \<mapsto> v))\<rparr>"
  by (simp add: set_header_def res_setHeader_def)

lemma remove_header_sent: "headersSent c \<Longrightarrow> remove_header c f = c"
  by (simp add: remove_header_def)

lemma set_type_fields [simp]:
  "statusCode (set_type c t) = statusCode c"
  "headersSent (set_type c t) = headersSent c"
  by (simp_all add: set_type_def set_header_eq remove_header_eq split: option.splits)

lemma set_length_fields [simp]:
  "statusCode (set_length c n) = statusCode c"
  "headersSent (set_length c n) = headersSent c"
  by (simp_all add: set_length_def set_header_eq)

lemma remove_header_fields [simp]:
  "statusCode (remove_header c f) = statusCode c"
  "headersSent (remove_header c f) = headersSent c"
  by (simp_all add: remove_header_eq)

lemma has_header_remove:
  "\<not> headersSent c \<Longrightarrow>
   has_header (remove_header c f) g = (toLowerCase g \<noteq> toLowerCase f \<and> has_header c g)"
  by (simp add: remove_header_eq has_header_def)

lemma body_update_fields [simp]:
  "get_type (c\<lparr>body := v\<rparr>) = get_type c"
  "has_header (c\<lparr>body := v\<rparr>) f = has_header c f"
  by (simp_all add: get_type_def get_header_def has_header_def)

lemma writable_cong:
  "writableEnded c' = writableEnded c \<Longrightarrow> socket_writable c' = socket_writable c \<Longrightarrow>
   writable c' = writable c"
  by (simp add: writable_def)

lemma writable_not_ended: "writable c \<Longrightarrow> \<not> writableEnded c"
  by (auto simp: writable_def split: if_splits)

lemma set_type_text:
  "\<not> headersSent c \<Longrightarrow>
   set_type c ''text'' =
     c\<lparr>headers := (headers c)(''content-type'' \<mapsto> ''text/plain; charset=utf-8'')\<rparr>"
  by (simp add: set_type_def mime_contentType_def set_header_eq)

subsection \<open>The status setter, case by case\<close>

lemma set_status_sent: "headersSent c \<Longrightarrow> set_status c code = Inr c"
  by (subst set_status.simps) simp

lemma set_status_keep_body:
  assumes "\<not> headersSent c" "100 \<le> code" "code \<le> 999"
    and "\<not> (truthy (body c) \<and> statuses_empty code)"
  shows "set_status c code =
     Inr (c\<lparr>statusCode := code,
            statusMessage := (if httpVersionMajor c < 2 then statuses_message code
                              else statusMessage c),
            explicitStatus := True\<rparr>)"
  using assms by (subst set_status.simps) (auto simp: Let_def)

subsection \<open>The body setter on \<open>null\<close> and \<open>undefined\<close>, case by case\<close>

lemma set_body_nullish_json:
  assumes "nullish v" "\<not> statuses_empty (statusCode c)" "get_type c = ''application/json''"
  shows "set_body c v = Inr (c\<lparr>body := Str ''null''\<rparr>)"
proof -
  have s: "statusCode (c\<lparr>body := v\<rparr>) = statusCode c" by simp
  show ?thesis
    apply (subst set_body.simps)
    apply (simp only: Let_def assms s body_update_fields if_True simp_thms)
    apply simp
    done
qed

lemma set_body_nullish_empty:
  assumes "nullish v" "statuses_empty (statusCode c)"
  shows "set_body c v =
     Inr (remove_header (remove_header (remove_header
            (if v = Null then c\<lparr>body := v, explicitNullBody := True\<rparr> else c\<lparr>body := v\<rparr>)
            ''Content-Type'') ''Content-Length'') ''Transfer-Encoding'')"
proof -
  have s: "statusCode (c\<lparr>body := v\<rparr>) = statusCode c" by simp
  show ?thesis
    apply (subst set_body.simps)
    apply (simp only: Let_def assms s body_update_fields if_True if_False simp_thms sum.case)
    done
qed

lemma set_body_nullish_plain:
  assumes "nullish v" "\<not> statuses_empty (statusCode c)" "get_type c \<noteq> ''application/json''"
    and "\<not> headersSent c"
  shows "set_body c v =
     Inr (remove_header (remove_header (remove_header
            (if v = Null
             then c\<lparr>body := v, statusCode := 204,
                    statusMessage := (if httpVersionMajor c < 2 then statuses_message 204
                                      else statusMessage c),
                    explicitStatus := True, explicitNullBody := True\<rparr>
             else c\<lparr>body := v, statusCode := 204,
                    statusMessage := (if httpVersionMajor c < 2 then statuses_message 204
                                      else statusMessage c),
                    explicitStatus := True\<rparr>)
            ''Content-Type'') ''Content-Length'') ''Transfer-Encoding'')"
proof -
  have s: "statusCode (c\<lparr>body := v\<rparr>) = statusCode c" by simp
  have b: "\<not> (truthy (body (c\<lparr>body := v\<rparr>)) \<and> statuses_empty 204)"
    using assms(1) by (cases v) simp_all
  have st: "set_status (c\<lparr>body := v\<rparr>) 204 =
     Inr (c\<lparr>body := v\<rparr>\<lparr>statusCode := 204,
            statusMessage := (if httpVersionMajor (c\<lparr>body := v\<rparr>) < 2
                              then statuses_message 204
                              else statusMessage (c\<lparr>body := v\<rparr>)),
            explicitStatus := True\<rparr>)"
    using assms(4) by (intro set_status_keep_body b) simp_all
  show ?thesis
    apply (subst set_body.simps)
    apply (simp only: Let_def assms s body_update_fields if_True if_False simp_thms sum.case st)
    apply (cases "v = Null")
     apply (simp_all del: statuses_message_simps)
    done
qed

lemma set_body_nullish_sent:
  assumes "nullish v" "\<not> statuses_empty (statusCode c)" "get_type c \<noteq> ''application/json''"
    and "headersSent c"
  shows "set_body c v =
     Inr (if v = Null then c\<lparr>body := v, explicitNullBody := True\<rparr> else c\<lparr>body := v\<rparr>)"
proof -
  have s: "statusCode (c\<lparr>body := v\<rparr>) = statusCode c" by simp
  have st: "set_status (c\<lparr>body := v\<rparr>) 204 = Inr (c\<lparr>body := v\<rparr>)"
    using assms(4) by (intro set_status_sent) simp
  show ?thesis
    apply (subst set_body.simps)
    apply (simp only: Let_def assms s body_update_fields if_True if_False simp_thms sum.case st)
    using assms(4) apply (simp add: remove_header_sent)
    done
qed

subsection \<open>Assigning the body\<close>

text \<open>
  C4, amended. On every response whose headers have not been sent, assigning \<open>null\<close>
  or \<open>undefined\<close> to the body does this: when the status is outside the empty set and
  the content type is \<open>application/json\<close>, the body becomes the string \<open>null\<close> and
  nothing else changes; otherwise the status becomes 204, or stays as it is when it is
  already 204, 205 or 304, and \<open>Content-Type\<close>, \<open>Content-Length\<close> and
  \<open>Transfer-Encoding\<close> are removed.
\<close>

theorem body_null_forces_204:
  assumes "\<not> headersSent c" and "nullish v"
  shows "\<exists>c'. set_body c v = Inr c' \<and>
     (if \<not> statuses_empty (statusCode c) \<and> get_type c = ''application/json'' then
        c' = c\<lparr>body := Str ''null''\<rparr>
      else
        statusCode c' = (if statuses_empty (statusCode c) then statusCode c else 204)
        \<and> body c' = v
        \<and> \<not> has_header c' ''Content-Type''
        \<and> \<not> has_header c' ''Content-Length''
        \<and> \<not> has_header c' ''Transfer-Encoding'')"
proof (cases "statuses_empty (statusCode c)")
  case True
  show ?thesis
    unfolding set_body_nullish_empty [OF assms(2) True]
    using True assms(1) by (auto simp: has_header_def remove_header_eq)
next
  case False
  show ?thesis
  proof (cases "get_type c = ''application/json''")
    case True
    show ?thesis
      unfolding set_body_nullish_json [OF assms(2) False True] using False True by simp
  next
    case json: False
    show ?thesis
      unfolding set_body_nullish_plain [OF assms(2) False json assms(1)]
      using False json assms(1) by (auto simp: has_header_def remove_header_eq)
  qed
qed

theorem body_null_forces_204_witness:
  "result_status (set_body pending_context Null) = Some 204
   \<and> result_header (set_body pending_context Null) ''Content-Type'' = None
   \<and> result_status (set_body (pending_context\<lparr>statusCode := 304\<rparr>) Undefined) = Some 304"
proof -
  have 1: "\<not> headersSent pending_context" "\<not> statuses_empty (statusCode pending_context)"
    "get_type pending_context \<noteq> ''application/json''"
    by (simp_all add: pending_context_def createContext_def get_type_def get_header_def)
  have 2: "\<not> headersSent (pending_context\<lparr>statusCode := 304\<rparr>)"
    by (simp add: pending_context_def createContext_def)
  show ?thesis
    using body_null_forces_204 [of pending_context Null]
      body_null_forces_204 [of "pending_context\<lparr>statusCode := 304\<rparr>" Undefined] 1 2
    by (auto simp: result_status_def result_header_def has_header_def get_header_def)
qed

text \<open>
  The claim as stated fails once the headers are out: the status stays 404, outside the
  empty set, and the content type stays.
\<close>

theorem body_null_after_flush_counterexample:
  "\<not> statuses_empty (statusCode flushed_context)
   \<and> get_type flushed_context \<noteq> ''application/json''
   \<and> result_status (set_body flushed_context Null) = Some 404
   \<and> result_header (set_body flushed_context Null) ''Content-Type''
        = Some ''text/plain; charset=utf-8''"
  by code_simp




text \<open>
  An earlier assignment to the body counts as setting the status: after
  \<open>ctx.body = undefined\<close> the mark is raised and the status is 204, and
  \<open>ctx.body = "hello"\<close> leaves it at 204.
\<close>

lemma body_after_undefined_body:
  "\<not> explicitStatus pending_context
   \<and> (case set_body pending_context Undefined of
        Inl e \<Rightarrow> None
      | Inr c \<Rightarrow> Some (explicitStatus c, statusCode c,
                        result_status (set_body c (Str ''hello''))))
     = Some (True, 204, Some 204)"
  by code_simp

subsection \<open>Finalization\<close>

lemma compose_two_acts:
  assumes "f (ctx s) = Inr c1" and "g c1 = Inr c2"
  shows "compose [exec (Act f (Act g Return))] None s =
     (s\<lparr>cursors := (cursors s)(fresh s := 0), fresh := fresh s + 1, ctx := c2\<rparr>, Inr ())"
  using assms by (simp add: compose_def Let_def dispatch.simps)

lemma handleResponse_explicit_null:
  assumes "\<not> respond_false c" "writable c" "\<not> statuses_empty (statusCode c)"
    "req_method c \<noteq> ''HEAD''" "nullish (body c)" "explicitNullBody c"
  shows "handleResponse c =
     Inr (res_end (set_length (remove_header (remove_header c
            ''Content-Type'') ''Transfer-Encoding'') 0) NoPayload)"
  unfolding handleResponse_def Let_def
  by (simp only: assms if_True if_False simp_thms)

text \<open>
  C3, amended. On every request context that is still open (headers not sent, transport
  writable, \<open>respond\<close> not switched off), for a method other than \<open>HEAD\<close> and a
  content type other than \<open>application/json\<close>: when the middleware sets the body to
  \<open>null\<close> and then the status to 404, the finalized response has status 404, no
  \<open>Content-Type\<close>, no \<open>Transfer-Encoding\<close>, \<open>Content-Length\<close> 0 and no payload.
\<close>

theorem explicit_null_keeps_404:
  assumes "\<not> headersSent c" "writable c" "\<not> respond_false c" "req_method c \<noteq> ''HEAD''"
    "get_type c \<noteq> ''application/json''"
  shows "statusCode (callback [exec null_then_404] c) = 404
     \<and> \<not> has_header (callback [exec null_then_404] c) ''Content-Type''
     \<and> \<not> has_header (callback [exec null_then_404] c) ''Transfer-Encoding''
     \<and> get_header (callback [exec null_then_404] c) ''Content-Length'' = Some ''0''
     \<and> sent (callback [exec null_then_404] c) = Some NoPayload"
proof -
  define c0 where "c0 = c\<lparr>statusCode := 404\<rparr>"
  have c0: "\<not> headersSent c0" "\<not> statuses_empty (statusCode c0)"
    "get_type c0 \<noteq> ''application/json''"
    using assms by (simp_all add: c0_def get_type_def get_header_def)
  define c1 where "c1 = remove_header (remove_header (remove_header
            (c0\<lparr>body := Null, statusCode := 204,
                   statusMessage := (if httpVersionMajor c0 < 2 then statuses_message 204
                                     else statusMessage c0),
                   explicitStatus := True, explicitNullBody := True\<rparr>)
            ''Content-Type'') ''Content-Length'') ''Transfer-Encoding''"
  have b1: "set_body c0 Null = Inr c1"
    unfolding c1_def using set_body_nullish_plain [OF _ c0(2) c0(3) c0(1), of Null] by simp
  have c1: "\<not> headersSent c1" "body c1 = Null" "explicitNullBody c1" "req_method c1 = req_method c"
    "respond_false c1 = respond_false c" "writableEnded c1 = writableEnded c"
    "socket_writable c1 = socket_writable c"
    using assms(1) by (simp_all add: c1_def c0_def remove_header_eq)
  define c2 where "c2 = c1\<lparr>statusCode := 404,
            statusMessage := (if httpVersionMajor c1 < 2 then statuses_message 404
                              else statusMessage c1),
            explicitStatus := True\<rparr>"
  have b2: "set_status c1 404 = Inr c2"
    unfolding c2_def using c1 by (intro set_status_keep_body) simp_all
  define s0 where "s0 = \<lparr>cursors = (\<lambda>_. 0), fresh = 0, ctx = c0\<rparr>"
  have run: "compose [exec null_then_404] None s0 =
     (s0\<lparr>cursors := (cursors s0)(fresh s0 := 0), fresh := fresh s0 + 1, ctx := c2\<rparr>, Inr ())"
    unfolding null_then_404_def
    using compose_two_acts [of "\<lambda>c. set_body c Null" s0 c1 "\<lambda>c. set_status c 404" c2] b1 b2
    by (simp add: s0_def)
  have c2: "\<not> respond_false c2" "writable c2" "\<not> statuses_empty (statusCode c2)"
    "req_method c2 \<noteq> ''HEAD''" "nullish (body c2)" "explicitNullBody c2"
    using c1 assms writable_cong [of c2 c] by (simp_all add: c2_def)
  note fin = handleResponse_explicit_null [OF c2]
  define c3 where "c3 = res_end (set_length (remove_header (remove_header c2
            ''Content-Type'') ''Transfer-Encoding'') 0) NoPayload"
  have cb: "callback [exec null_then_404] c = c3"
    unfolding callback_def handleRequest_def Let_def
    by (simp add: c0_def [symmetric] s0_def [symmetric] run fin c3_def)
  have n2: "\<not> headersSent c2" "\<not> writableEnded c2" "statusCode c2 = 404"
    using c1 writable_not_ended [OF assms(2)] by (simp_all add: c2_def)
  show ?thesis
    unfolding cb c3_def using n2
    by (simp add: res_end_def set_length_def has_header_def get_header_def
        remove_header_eq set_header_eq)
qed

theorem explicit_null_keeps_404_witness:
  "statusCode (callback [exec null_then_404] (createContext ''GET'' ''/'' ''localhost'' 1)) = 404
   \<and> get_header (callback [exec null_then_404] (createContext ''GET'' ''/'' ''localhost'' 1))
        ''Content-Length'' = Some ''0''
   \<and> sent (callback [exec null_then_404] (createContext ''GET'' ''/'' ''localhost'' 1))
        = Some NoPayload"
  using explicit_null_keeps_404 [of "createContext ''GET'' ''/'' ''localhost'' 1"]
  by (simp add: createContext_def writable_def get_type_def get_header_def)

text \<open>
  The claim as stated, with the status set first and the body second, fails on a new
  \<open>GET\<close> request: the response goes out with status 204 and without a
  \<open>Content-Length\<close>.
\<close>

theorem status_then_null_counterexample:
  "statusCode (callback [exec status_404_then_null]
      (createContext ''GET'' ''/'' ''localhost'' 1)) = 204
   \<and> get_header (callback [exec status_404_then_null]
      (createContext ''GET'' ''/'' ''localhost'' 1)) ''Content-Length'' = None"
  by code_simp

subsection \<open>The error handler of the context\<close>

lemma fold_set_header:
  "\<not> headersSent c \<Longrightarrow>
   fold (\<lambda>(k, v) c'. set_header c' k v) kvs c =
     c\<lparr>headers := fold (\<lambda>(k, v) m. m(toLowerCase k \<mapsto> v)) kvs (headers c)\<rparr>"
proof (induction kvs arbitrary: c)
  case Nil
  then show ?case by simp
next
  case (Cons kv kvs)
  obtain k v where kv: "kv = (k, v)" by (cases kv)
  have "\<not> headersSent (set_header c k v)" using Cons.prems by (simp add: set_header_eq)
  from Cons.IH [OF this] show ?case
    using Cons.prems by (simp add: kv set_header_eq)
qed

lemma set_headers_fresh:
  "\<not> headersSent c \<Longrightarrow> headers c = Map.empty \<Longrightarrow>
   set_headers c (err_headers err) = c\<lparr>headers := error_headers err\<rparr>"
  by (cases "err_headers err") (simp_all add: set_headers_def error_headers_def fold_set_header)

text \<open>
  C8, amended. For every error object routed to \<open>onerror\<close> while the headers are not
  sent and the transport is writable, the status is selected with \<open>ENOENT\<close> first
  (404), then the error's own \<open>status\<close> (or \<open>statusCode\<close> when \<open>status\<close> is falsy)
  when it is a number with a known reason phrase, then 500. When the selected status
  is not one of 204, 205 and 304: the response has that status, its content type is
  plain text, its payload is the error's message when the error is exposable and the
  reason phrase of the status otherwise, and apart from \<open>Content-Type\<close> and
  \<open>Content-Length\<close> its headers are exactly those of the error object.
\<close>

theorem onerror_response:
  assumes "\<not> headersSent c" and "writable c"
    and "sel = (if err_code err = Some ''ENOENT'' then 404
                else (case (if truthy_field (err_status err) then err_status err
                            else err_statusCode err) of
                        NumV n \<Rightarrow> if statuses_message n = None then 500 else n
                      | _ \<Rightarrow> 500))"
    and "\<not> statuses_empty sel"
    and "statuses_message sel = Some phrase"
  shows "\<exists>c'. ctx_onerror c (Some (ErrorV err)) = Inr c'
     \<and> statusCode c' = sel
     \<and> get_header c' ''Content-Type'' = Some ''text/plain; charset=utf-8''
     \<and> sent c' = Some (Text (if err_expose err then err_message err else phrase))
     \<and> (\<forall>name. name \<noteq> ''content-type'' \<and> name \<noteq> ''content-length''
          \<longrightarrow> headers c' name = error_headers err name)"
proof -
  define c1 where "c1 = c\<lparr>emitted := emitted c @ [err]\<rparr>"
  define c2 where "c2 = c1\<lparr>headers := Map.empty\<rparr>"
  define c3 where "c3 = c2\<lparr>headers := error_headers err\<rparr>"
  define c4 where "c4 = c3\<lparr>headers :=
      (headers c3)(''content-type'' \<mapsto> ''text/plain; charset=utf-8'')\<rparr>"
  define c5 where "c5 = c4\<lparr>statusCode := sel,
      statusMessage := (if httpVersionMajor c4 < 2 then statuses_message sel
                        else statusMessage c4), explicitStatus := True\<rparr>"
  define msg where "msg = (if err_expose err then err_message err else phrase)"
  have ns: "\<not> headersSent c2" "headers c2 = Map.empty"
    using assms(1) by (simp_all add: c2_def c1_def)
  have s3: "set_headers c2 (err_headers err) = c3"
    unfolding c3_def by (rule set_headers_fresh [OF ns])
  have n3: "\<not> headersSent c3" using ns by (simp add: c3_def)
  have s4: "set_type c3 ''text'' = c4"
    unfolding c4_def by (rule set_type_text [OF n3])
  have n4: "\<not> headersSent c4" using n3 by (simp add: c4_def)
  have rng: "100 \<le> sel" "sel \<le> 999" using statuses_message_range [OF assms(5)] by simp_all
  have s5: "set_status c4 sel = Inr c5"
    unfolding c5_def using n4 rng assms(4) by (intro set_status_keep_body) simp_all
  have sel_eq: "(case (if err_code err = Some ''ENOENT'' then NumV 404
                  else if truthy_field (err_status err) then err_status err
                       else err_statusCode err) of
             NumV n \<Rightarrow> if statuses_message n = None then 500 else n
           | _ \<Rightarrow> 500) = sel"
    unfolding assms(3) by simp
  have hs: "(headersSent c \<or> \<not> writable c) = False" using assms by simp
  have on: "ctx_onerror c (Some (ErrorV err)) =
      Inr (res_end (set_length c5 (int (byteLength msg))) (Text msg))"
    unfolding ctx_onerror_def Let_def
    by (simp only: option.case thrown.case hs if_False c1_def [symmetric] c2_def [symmetric]
        s3 s4 sel_eq s5 sum.case assms(5) msg_def)
  have n5: "\<not> headersSent c5" "\<not> writableEnded c5"
    using n4 writable_not_ended [OF assms(2)]
    by (simp_all add: c5_def c4_def c3_def c2_def c1_def)
  show ?thesis
    unfolding on using n5
    by (simp add: res_end_def set_length_def set_header_eq has_header_def get_header_def
        msg_def c5_def c4_def c3_def)
qed

theorem onerror_response_witness:
  "result_status (ctx_onerror pending_context (Some (ErrorV teapot_error))) = Some 418
   \<and> result_header (ctx_onerror pending_context (Some (ErrorV teapot_error))) ''Content-Type''
        = Some ''text/plain; charset=utf-8''
   \<and> result_header (ctx_onerror pending_context (Some (ErrorV teapot_error))) ''X-New-Header''
        = Some ''Value''"
proof -
  have 1: "\<not> headersSent pending_context" "writable pending_context"
    by (simp_all add: pending_context_def createContext_def writable_def)
  have 2: "statuses_message 418 = Some ''I'm a Teapot''"
    by (simp add: statuses_message_def status_codes_def)
  have 3: "418 = (if err_code teapot_error = Some ''ENOENT'' then 404
                else (case (if truthy_field (err_status teapot_error) then err_status teapot_error
                            else err_statusCode teapot_error) of
                        NumV n \<Rightarrow> if statuses_message n = None then 500 else n
                      | _ \<Rightarrow> 500))"
    by (simp add: teapot_error_def new_Error_def 2)
  have 4: "\<not> statuses_empty 418" by (simp add: statuses_empty_def)
  have 5: "toLowerCase ''X-New-Header'' = ''x-new-header''"
    by (simp add: toLowerCase_def toLowerChar_def ascii_upper_def ascii_lower_def)
  have 6: "error_headers teapot_error ''x-new-header'' = Some ''Value''"
    by (simp add: error_headers_def teapot_error_def new_Error_def 5)
  from onerror_response [OF 1 3 4 2] obtain c' where
    a: "ctx_onerror pending_context (Some (ErrorV teapot_error)) = Inr c'"
    and b: "statusCode c' = 418"
    and c: "get_header c' ''Content-Type'' = Some ''text/plain; charset=utf-8''"
    and d: "\<forall>name. name \<noteq> ''content-type'' \<and> name \<noteq> ''content-length''
          \<longrightarrow> headers c' name = error_headers teapot_error name"
    by blast
  from d have e: "headers c' ''x-new-header'' = error_headers teapot_error ''x-new-header''"
    by simp
  show ?thesis
    unfolding a result_status_def result_header_def get_header_def 5
    using b c e 6 by (simp add: get_header_def)
qed

text \<open>
  The claim as stated puts the error's own status before \<open>ENOENT\<close>. An error with the
  valid status 403 and the code \<open>ENOENT\<close> is answered with 404.
\<close>

theorem onerror_enoent_counterexample:
  "err_status forbidden_enoent = NumV 403
   \<and> statuses_message 403 = Some ''Forbidden''
   \<and> result_status (ctx_onerror pending_context (Some (ErrorV forbidden_enoent))) = Some 404"
  by code_simp

section \<open>Properties of the router\<close>

lemma upper_verbs [simp]:
  "toUpperCase ''get'' = ''GET''" "toUpperCase ''put'' = ''PUT''"
  by (simp_all add: toUpperCase_def toUpperChar_def ascii_upper_def ascii_lower_def)

text \<open>The two layers of the example, and the router they are registered on.\<close>

lemma users_router_eq:
  "users_router compile gh ph =
     \<lparr>router_methods = default_methods,
      router_stack =
        [\<lparr>layer_path = ''/users'', layer_methods = [''HEAD'', ''GET''],
          layer_regexp = compile ''/users'' no_opts, layer_stack = gh, layer_opts = no_opts\<rparr>,
         \<lparr>layer_path = ''/users'', layer_methods = [''PUT''],
          layer_regexp = compile ''/users'' no_opts, layer_stack = ph, layer_opts = no_opts\<rparr>],
      router_exclusive = False, router_host = None, router_prefix = [],
      router_sensitive = False, router_strict = False\<rparr>"
  by (simp add: users_router_def verb_def register_def new_Router_def new_Layer_def
      push_method_def Let_def no_opts_def)

lemma users_match:
  assumes "m \<noteq> ''HEAD''" "m \<noteq> ''GET''" "m \<noteq> ''PUT''"
  shows "matched_route (match (users_router compile gh ph) p m) = False
     \<and> map layer_ref_of (matched_path (match (users_router compile gh ph) p m)) =
         users_refs compile p"
  using assms
  by (simp add: users_router_eq match_def match_layer_def layer_match_def Let_def
      users_refs_def layer_ref_of_def)

lemma users_routes:
  assumes "req_method (ctx s) \<noteq> ''HEAD''" "req_method (ctx s) \<noteq> ''GET''"
    "req_method (ctx s) \<noteq> ''PUT''"
    and "matched (ctx s) = None"
  shows "routes (users_router compile gh ph) next s =
     next (s\<lparr>ctx := (ctx s)\<lparr>matched := Some (users_refs compile (path (ctx s)))\<rparr>\<rparr>)"
proof -
  have h: "matchHost (users_router compile gh ph) (host (ctx s))"
    by (simp add: matchHost_def users_router_eq)
  note m = users_match [OF assms(1-3), of compile gh ph "path (ctx s)"]
  have refs: "map layer_ref_of (matched_path (match (users_router compile gh ph) (path (ctx s))
      (req_method (ctx s)))) = users_refs compile (path (ctx s))"
    using m by simp
  have nr: "\<not> matched_route (match (users_router compile gh ph) (path (ctx s))
      (req_method (ctx s)))"
    using m by simp
  show ?thesis
    unfolding routes_def Let_def
    by (simp only: h refs nr assms(4) simp_thms if_False if_True option.case)
qed

lemma allowed_keys_users:
  "allowed_keys (users_refs compile p) =
     (if compile ''/users'' no_opts p then [''HEAD'', ''GET'', ''PUT''] else [])"
  by (simp add: allowed_keys_def users_refs_def insert_key_def)

text \<open>A pipeline of two steps, call by call.\<close>

lemma pipeline_two:
  "compose [m1, m2] None s =
     m1 (dispatch (fresh s) [m1, m2] None (Suc 0))
        (s\<lparr>fresh := Suc (fresh s), cursors := (cursors s)(fresh s := 0)\<rparr>)"
  by (simp add: compose_def Let_def) (subst dispatch.simps, simp add: Let_def)

lemma dispatch_last:
  assumes "cursors s a < 1"
  shows "dispatch a [m1, m2] None (Suc 0) s =
     m2 (dispatch a [m1, m2] None (Suc (Suc 0))) (s\<lparr>cursors := (cursors s)(a := 1)\<rparr>)"
  using assms by (subst dispatch.simps) (simp add: Let_def)

lemma dispatch_end:
  assumes "cursors s a < 2"
  shows "dispatch a [m1, m2] None (Suc (Suc 0)) s =
     (s\<lparr>cursors := (cursors s)(a := 2)\<rparr>, Inr ())"
  using assms by (subst dispatch.simps) (simp add: Let_def)

lemma allowedMethods_fulfilled:
  assumes "next s = (s', Inr ())"
    and "allowedMethods_then (router_methods r) options (ctx s') = Inr c"
  shows "allowedMethods r options next s = (s'\<lparr>ctx := c\<rparr>, Inr ())"
  using assms by (simp add: allowedMethods_def)

text \<open>
  The pipeline of the example on a request that no layer takes: \<open>routes\<close> stores the
  layers matched by path and calls \<open>next()\<close>, \<open>allowedMethods\<close> calls \<open>next()\<close>, which
  resolves, and then completes the context.
\<close>

lemma users_pipeline:
  assumes "req_method c \<noteq> ''HEAD''" "req_method c \<noteq> ''GET''" "req_method c \<noteq> ''PUT''"
    and "matched c = None"
    and "allowedMethods_then default_methods no_options
           (c\<lparr>matched := Some (users_refs compile (path c))\<rparr>) = Inr c'"
  shows "ctx (fst (compose [routes (users_router compile gh ph),
                            allowedMethods (users_router compile gh ph) no_options] None
                     \<lparr>cursors = (\<lambda>_. 0), fresh = 0, ctx = c\<rparr>)) = c'
     \<and> snd (compose [routes (users_router compile gh ph),
                     allowedMethods (users_router compile gh ph) no_options] None
                     \<lparr>cursors = (\<lambda>_. 0), fresh = 0, ctx = c\<rparr>) = Inr ()"
proof -
  define r where "r = users_router compile gh ph"
  define s0 :: "request_context pstate" where "s0 = \<lparr>cursors = (\<lambda>_. 0), fresh = 0, ctx = c\<rparr>"
  define s1 where "s1 = s0\<lparr>fresh := Suc (fresh s0), cursors := (cursors s0)(fresh s0 := 0)\<rparr>"
  define s2 where "s2 = s1\<lparr>ctx := (ctx s1)\<lparr>matched :=
      Some (users_refs compile (path (ctx s1)))\<rparr>\<rparr>"
  define s3 where "s3 = s2\<lparr>cursors := (cursors s2)(0 := 1)\<rparr>"
  define s4 where "s4 = s3\<lparr>cursors := (cursors s3)(0 := 2)\<rparr>"
  have f0: "fresh s0 = 0" by (simp add: s0_def)
  have c1: "req_method (ctx s1) \<noteq> ''HEAD''" "req_method (ctx s1) \<noteq> ''GET''"
    "req_method (ctx s1) \<noteq> ''PUT''" "matched (ctx s1) = None"
    using assms(1-4) by (simp_all add: s1_def s0_def)
  have "compose [routes r, allowedMethods r no_options] None s0 =
      routes r (dispatch 0 [routes r, allowedMethods r no_options] None (Suc 0)) s1"
    unfolding s1_def using pipeline_two [of "routes r" "allowedMethods r no_options" s0]
    by (simp add: f0)
  also have "\<dots> = dispatch 0 [routes r, allowedMethods r no_options] None (Suc 0) s2"
    unfolding s2_def r_def by (rule users_routes [OF c1])
  also have "\<dots> = allowedMethods r no_options
      (dispatch 0 [routes r, allowedMethods r no_options] None (Suc (Suc 0))) s3"
    unfolding s3_def by (rule dispatch_last) (simp add: s2_def s1_def s0_def)
  also have "\<dots> = (s4\<lparr>ctx := c'\<rparr>, Inr ())"
  proof -
    have e: "dispatch 0 [routes r, allowedMethods r no_options] None (Suc (Suc 0)) s3 =
        (s4, Inr ())"
      unfolding s4_def by (rule dispatch_end) (simp add: s3_def s2_def s1_def s0_def)
    have m: "router_methods r = default_methods" by (simp add: r_def users_router_eq)
    have c4: "ctx s4 = c\<lparr>matched := Some (users_refs compile (path c))\<rparr>"
      by (simp add: s4_def s3_def s2_def s1_def s0_def)
    show ?thesis
      using allowedMethods_fulfilled [of
          "dispatch 0 [routes r, allowedMethods r no_options] None (Suc (Suc 0))" s3 s4
          r no_options c'] e m c4 assms(5)
      by simp
  qed
  finally show ?thesis by (simp add: r_def s0_def)
qed

lemma users_app_eq:
  assumes "req_method c \<noteq> ''HEAD''" "req_method c \<noteq> ''GET''" "req_method c \<noteq> ''PUT''"
    and "matched c = None"
    and "allowedMethods_then default_methods no_options
           (c\<lparr>statusCode := 404, matched := Some (users_refs compile (path c))\<rparr>) = Inr c'"
    and "handleResponse c' = Inr c''"
  shows "users_app compile gh ph c = c''"
proof -
  define c0 where "c0 = c\<lparr>statusCode := 404\<rparr>"
  have 0: "req_method c0 \<noteq> ''HEAD''" "req_method c0 \<noteq> ''GET''" "req_method c0 \<noteq> ''PUT''"
    "matched c0 = None"
    using assms(1-4) by (simp_all add: c0_def)
  have 1: "allowedMethods_then default_methods no_options
           (c0\<lparr>matched := Some (users_refs compile (path c0))\<rparr>) = Inr c'"
    using assms(5) by (simp add: c0_def)
  note run = users_pipeline [OF 0 1, of gh ph]
  obtain s' where s': "compose [routes (users_router compile gh ph),
        allowedMethods (users_router compile gh ph) no_options] None
        \<lparr>cursors = (\<lambda>_. 0), fresh = 0, ctx = c0\<rparr> = (s', Inr ())" "ctx s' = c'"
    using run by (metis prod.collapse)
  show ?thesis
    unfolding users_app_def callback_def handleRequest_def Let_def
    by (simp add: c0_def [symmetric] s' assms(6))
qed

lemma set_body_string_explicit:
  assumes "explicitStatus c"
  shows "set_body c (Str s) =
     Inr (set_length
            (if \<not> has_header c ''Content-Type''
             then set_type (c\<lparr>body := Str s\<rparr>) (if html_like s then ''html'' else ''text'')
             else c\<lparr>body := Str s\<rparr>)
            (int (byteLength s)))"
proof -
  have e: "explicitStatus (c\<lparr>body := Str s\<rparr>)" using assms by simp
  show ?thesis
    apply (subst set_body.simps)
    apply (simp only: Let_def nullish.simps if_False e simp_thms sum.case body_value.case
        body_update_fields)
    done
qed

lemma allowedMethods_then_501:
  assumes "statusCode c = 404" "matched c = Some ms" "req_method c \<notin> set implemented"
    "\<not> headersSent c" "\<not> truthy (body c)"
  shows "allowedMethods_then implemented no_options c =
     Inr (set_header
            (c\<lparr>statusCode := 501,
               statusMessage := (if httpVersionMajor c < 2 then statuses_message 501
                                 else statusMessage c),
               explicitStatus := True\<rparr>)
            ''Allow'' (join '', '' (allowed_keys ms)))"
proof -
  have st: "set_status c 501 = Inr (c\<lparr>statusCode := 501,
               statusMessage := (if httpVersionMajor c < 2 then statuses_message 501
                                 else statusMessage c),
               explicitStatus := True\<rparr>)"
    using assms by (intro set_status_keep_body) simp_all
  show ?thesis
    unfolding allowedMethods_then_def Let_def no_options_def
    by (simp only: assms st simp_thms if_True if_False option.case sum.case
        allowed_options.simps)
qed

lemma allowedMethods_then_405:
  assumes "statusCode c = 404" "matched c = Some ms" "req_method c \<in> set implemented"
    "allowed_keys ms \<noteq> []" "req_method c \<noteq> ''OPTIONS''"
    "req_method c \<notin> set (allowed_keys ms)"
    "\<not> headersSent c" "\<not> truthy (body c)"
  shows "allowedMethods_then implemented no_options c =
     Inr (set_header
            (c\<lparr>statusCode := 405,
               statusMessage := (if httpVersionMajor c < 2 then statuses_message 405
                                 else statusMessage c),
               explicitStatus := True\<rparr>)
            ''Allow'' (join '', '' (allowed_keys ms)))"
proof -
  have st: "set_status c 405 = Inr (c\<lparr>statusCode := 405,
               statusMessage := (if httpVersionMajor c < 2 then statuses_message 405
                                 else statusMessage c),
               explicitStatus := True\<rparr>)"
    using assms by (intro set_status_keep_body) simp_all
  show ?thesis
    unfolding allowedMethods_then_def Let_def no_options_def
    by (simp only: assms st simp_thms if_True if_False option.case sum.case
        allowed_options.simps)
qed

lemma allowedMethods_then_options:
  assumes "statusCode c = 404" "matched c = Some ms" "req_method c \<in> set implemented"
    "allowed_keys ms \<noteq> []" "req_method c = ''OPTIONS''"
    "\<not> headersSent c" "\<not> truthy (body c)" "\<not> has_header c ''Content-Type''"
  shows "allowedMethods_then implemented no_options c =
     Inr (set_header
            (set_length
              (set_type
                (c\<lparr>statusCode := 200,
                   statusMessage := (if httpVersionMajor c < 2 then statuses_message 200
                                     else statusMessage c),
                   explicitStatus := True, body := Str []\<rparr>) ''text'') 0)
            ''Allow'' (join '', '' (allowed_keys ms)))"
proof -
  define c1 where "c1 = c\<lparr>statusCode := 200,
               statusMessage := (if httpVersionMajor c < 2 then statuses_message 200
                                 else statusMessage c),
               explicitStatus := True\<rparr>"
  have st: "set_status c 200 = Inr c1"
    unfolding c1_def using assms by (intro set_status_keep_body) simp_all
  have e: "explicitStatus c1" "\<not> has_header c1 ''Content-Type''"
    using assms(8) by (simp_all add: c1_def has_header_def)
  have sb: "set_body c1 (Str []) = Inr (set_length (set_type (c1\<lparr>body := Str []\<rparr>) ''text'') 0)"
    unfolding set_body_string_explicit [OF e(1)] using e(2)
    by (simp add: html_like_def byteLength_def)
  have i: "''OPTIONS'' \<in> set implemented" using assms(3,5) by simp
  have "allowedMethods_then implemented no_options c =
      Inr (set_header (set_length (set_type (c1\<lparr>body := Str []\<rparr>) ''text'') 0)
            ''Allow'' (join '', '' (allowed_keys ms)))"
    unfolding allowedMethods_then_def Let_def no_options_def
    by (simp only: assms(1-5) i st sb simp_thms if_True if_False option.case sum.case
        allowed_options.simps)
  then show ?thesis by (simp add: c1_def)
qed

lemma handleResponse_string:
  assumes "\<not> respond_false c" "writable c" "\<not> statuses_empty (statusCode c)"
    "req_method c \<noteq> ''HEAD''" "body c = Str s"
  shows "handleResponse c = Inr (res_end c (Text s))"
  unfolding handleResponse_def Let_def
  by (simp only: assms if_True if_False simp_thms nullish.simps body_value.case)

lemma handleResponse_no_body:
  assumes "\<not> respond_false c" "writable c" "\<not> statuses_empty (statusCode c)"
    "req_method c \<noteq> ''HEAD''" "body c = Undefined" "\<not> explicitNullBody c"
  shows "\<exists>c'. handleResponse c = Inr c' \<and> statusCode c' = statusCode c
     \<and> get_header c' ''Allow'' = get_header c ''Allow''"
proof -
  define b where "b = (if httpVersionMajor c \<ge> 2 then show_int (statusCode c)
                      else (case get_message c of
                              Some m \<Rightarrow> if m \<noteq> [] then m else show_int (statusCode c)
                            | None \<Rightarrow> show_int (statusCode c)))"
  have "handleResponse c =
      Inr (res_end (if \<not> headersSent c
                    then set_length (set_type c ''text'') (int (byteLength b)) else c) (Text b))"
    unfolding handleResponse_def Let_def b_def
    by (simp only: assms if_True if_False simp_thms nullish.simps)
  then show ?thesis
    by (simp add: res_end_def set_length_def set_type_text set_header_eq get_header_def)
qed

lemma default_methods_mem:
  "''OPTIONS'' \<in> set default_methods" "''POST'' \<in> set default_methods"
  "''HEAD'' \<in> set default_methods" "''GET'' \<in> set default_methods"
  "''PUT'' \<in> set default_methods"
  by (simp_all add: default_methods_def)

lemma join_users [simp]: "join '', '' [''HEAD'', ''GET'', ''PUT''] = ''HEAD, GET, PUT''"
  by simp

lemma users_options:
  assumes "compile ''/users'' no_opts ''/users''"
  shows "statusCode (users_app compile gh ph (createContext ''OPTIONS'' ''/users'' h v)) = 200
     \<and> get_header (users_app compile gh ph (createContext ''OPTIONS'' ''/users'' h v)) ''Allow''
         = Some ''HEAD, GET, PUT''
     \<and> sent (users_app compile gh ph (createContext ''OPTIONS'' ''/users'' h v)) = Some (Text [])"
proof -
  define c where "c = createContext ''OPTIONS'' ''/users'' h v"
  define ca where "ca = c\<lparr>statusCode := 404, matched := Some (users_refs compile (path c))\<rparr>"
  have pc: "path c = ''/users''" by (simp add: c_def createContext_def)
  have k: "allowed_keys (users_refs compile ''/users'') = [''HEAD'', ''GET'', ''PUT'']"
    using assms by (simp add: allowed_keys_users)
  define c' where "c' = set_header
            (set_length
              (set_type
                (ca\<lparr>statusCode := 200,
                   statusMessage := (if httpVersionMajor ca < 2 then statuses_message 200
                                     else statusMessage ca),
                   explicitStatus := True, body := Str []\<rparr>) ''text'') 0)
            ''Allow'' (join '', '' (allowed_keys (users_refs compile (path c))))"
  have 1: "allowedMethods_then default_methods no_options ca = Inr c'"
    unfolding c'_def
    by (rule allowedMethods_then_options)
       (simp_all add: ca_def pc k, simp_all add: c_def createContext_def default_methods_mem has_header_def)
  have f: "\<not> respond_false c'" "writable c'" "statusCode c' = 200" "req_method c' \<noteq> ''HEAD''"
    "body c' = Str []" "\<not> writableEnded c'"
    "get_header c' ''Allow'' = Some ''HEAD, GET, PUT''"
    by (simp_all add: c'_def pc k, simp_all add: ca_def c_def createContext_def set_header_eq set_length_def
        set_type_text has_header_def get_header_def writable_def)
  have 2: "handleResponse c' = Inr (res_end c' (Text []))"
    by (rule handleResponse_string) (simp_all add: f)
  have m: "req_method c \<noteq> ''HEAD''" "req_method c \<noteq> ''GET''" "req_method c \<noteq> ''PUT''"
    "matched c = None"
    by (simp_all add: c_def createContext_def)
  have "users_app compile gh ph c = res_end c' (Text [])"
    by (rule users_app_eq [OF m _ 2]) (simp add: 1 [unfolded ca_def])
  then show ?thesis
    unfolding c_def [symmetric] using f by (simp add: res_end_def get_header_def)
qed

lemma users_post:
  assumes "compile ''/users'' no_opts ''/users''"
  shows "statusCode (users_app compile gh ph (createContext ''POST'' ''/users'' h v)) = 405
     \<and> get_header (users_app compile gh ph (createContext ''POST'' ''/users'' h v)) ''Allow''
         = Some ''HEAD, GET, PUT''"
proof -
  define c where "c = createContext ''POST'' ''/users'' h v"
  define ca where "ca = c\<lparr>statusCode := 404, matched := Some (users_refs compile (path c))\<rparr>"
  have pc: "path c = ''/users''" by (simp add: c_def createContext_def)
  have k: "allowed_keys (users_refs compile ''/users'') = [''HEAD'', ''GET'', ''PUT'']"
    using assms by (simp add: allowed_keys_users)
  define c' where "c' = set_header
            (ca\<lparr>statusCode := 405,
               statusMessage := (if httpVersionMajor ca < 2 then statuses_message 405
                                 else statusMessage ca),
               explicitStatus := True\<rparr>)
            ''Allow'' (join '', '' (allowed_keys (users_refs compile (path c))))"
  have 1: "allowedMethods_then default_methods no_options ca = Inr c'"
    unfolding c'_def
    by (rule allowedMethods_then_405)
       (simp_all add: ca_def pc k, simp_all add: c_def createContext_def default_methods_mem)
  have f: "\<not> respond_false c'" "writable c'" "\<not> statuses_empty (statusCode c')"
    "req_method c' \<noteq> ''HEAD''" "body c' = Undefined" "\<not> explicitNullBody c'"
    "statusCode c' = 405" "get_header c' ''Allow'' = Some ''HEAD, GET, PUT''"
    by (simp_all add: c'_def pc k, simp_all add: ca_def c_def createContext_def set_header_eq
        get_header_def writable_def)
  from handleResponse_no_body [OF f(1-6)] obtain c'' where
    2: "handleResponse c' = Inr c''" and 3: "statusCode c'' = statusCode c'"
    and 4: "get_header c'' ''Allow'' = get_header c' ''Allow''"
    by blast
  have m: "req_method c \<noteq> ''HEAD''" "req_method c \<noteq> ''GET''" "req_method c \<noteq> ''PUT''"
    "matched c = None"
    by (simp_all add: c_def createContext_def)
  have "users_app compile gh ph c = c''"
    by (rule users_app_eq [OF m _ 2]) (simp add: 1 [unfolded ca_def])
  then show ?thesis
    unfolding c_def [symmetric] using f 3 4 by simp
qed

lemma users_not_implemented:
  assumes "m \<notin> set default_methods"
  shows "statusCode (users_app compile gh ph (createContext m p h v)) = 501"
proof -
  define c where "c = createContext m p h v"
  define ca where "ca = c\<lparr>statusCode := 404, matched := Some (users_refs compile (path c))\<rparr>"
  have m: "req_method c \<noteq> ''HEAD''" "req_method c \<noteq> ''GET''" "req_method c \<noteq> ''PUT''"
    "matched c = None"
    using assms default_methods_mem by (auto simp: c_def createContext_def)
  define c' where "c' = set_header
            (ca\<lparr>statusCode := 501,
               statusMessage := (if httpVersionMajor ca < 2 then statuses_message 501
                                 else statusMessage ca),
               explicitStatus := True\<rparr>)
            ''Allow'' (join '', '' (allowed_keys (users_refs compile (path c))))"
  have 1: "allowedMethods_then default_methods no_options ca = Inr c'"
    unfolding c'_def
    by (rule allowedMethods_then_501)
       (use assms in \<open>simp_all add: ca_def c_def createContext_def\<close>)
  have f: "\<not> respond_false c'" "writable c'" "\<not> statuses_empty (statusCode c')"
    "req_method c' \<noteq> ''HEAD''" "body c' = Undefined" "\<not> explicitNullBody c'"
    "statusCode c' = 501"
    using m(1)
    by (simp_all add: c'_def ca_def c_def createContext_def set_header_eq writable_def)
  from handleResponse_no_body [OF f(1-6)] obtain c'' where
    2: "handleResponse c' = Inr c''" and 3: "statusCode c'' = statusCode c'"
    by blast
  have "users_app compile gh ph c = c''"
    by (rule users_app_eq [OF m _ 2]) (simp add: 1 [unfolded ca_def])
  then show ?thesis
    unfolding c_def [symmetric] using f 3 by simp
qed

text \<open>
  C5. A router built without options has GET and PUT registered at \<open>/users\<close>, and
  the application uses its \<open>routes()\<close> and then its \<open>allowedMethods()\<close>; the
  pattern \<open>/users\<close> matches the path \<open>/users\<close>. The layer registered for GET has
  the methods HEAD and GET. An OPTIONS request to \<open>/users\<close> is answered with status
  200, \<open>Allow: HEAD, GET, PUT\<close> and an empty body; a POST to \<open>/users\<close> with status
  405 and the same \<open>Allow\<close> header; and a request to any path with a method outside
  the router's table of implemented methods with status 501.
\<close>

theorem allowed_methods_users:
  assumes "compile ''/users'' no_opts ''/users''"
  shows "map layer_methods (router_stack (users_router compile gh ph))
           = [[''HEAD'', ''GET''], [''PUT'']]
     \<and> statusCode (users_app compile gh ph (createContext ''OPTIONS'' ''/users'' h v)) = 200
     \<and> get_header (users_app compile gh ph (createContext ''OPTIONS'' ''/users'' h v)) ''Allow''
         = Some ''HEAD, GET, PUT''
     \<and> sent (users_app compile gh ph (createContext ''OPTIONS'' ''/users'' h v)) = Some (Text [])
     \<and> statusCode (users_app compile gh ph (createContext ''POST'' ''/users'' h v)) = 405
     \<and> get_header (users_app compile gh ph (createContext ''POST'' ''/users'' h v)) ''Allow''
         = Some ''HEAD, GET, PUT''
     \<and> (\<forall>m p. m \<notin> set default_methods \<longrightarrow>
           statusCode (users_app compile gh ph (createContext m p h v)) = 501)"
  using users_options [where compile = compile, OF assms, of gh ph h v]
    users_post [where compile = compile, OF assms, of gh ph h v]
    users_not_implemented [of _ compile gh ph _ h v]
  by (simp add: users_router_eq)

theorem allowed_methods_users_witness:
  "statusCode (users_app literal_path [] [] (createContext ''OPTIONS'' ''/users'' ''localhost'' 1))
     = 200
   \<and> get_header (users_app literal_path [] []
        (createContext ''POST'' ''/users'' ''localhost'' 1)) ''Allow'' = Some ''HEAD, GET, PUT''
   \<and> statusCode (users_app literal_path [] [] (createContext ''SEARCH'' ''/users'' ''localhost'' 1))
     = 501"
proof -
  have 1: "literal_path ''/users'' no_opts ''/users''" by (simp add: literal_path_def)
  have 2: "''SEARCH'' \<notin> set default_methods" by (simp add: default_methods_def)
  show ?thesis
    using allowed_methods_users [where compile = literal_path, OF 1,
        of "[]" "[]" "''localhost''" 1] 2
    by blast
qed

section \<open>Proofs: the redirect pass of the proxy\<close>

subsection \<open>The decimal text of a status code and the redirect pattern\<close>

lemma digit_char_inj:
  "d < 10 \<Longrightarrow> e < 10 \<Longrightarrow> (digit_char d = digit_char e) = (d = e)"
  unfolding digit_char_def by (subst nth_eq_iff_index_eq) simp_all

lemma digit_literals:
  "CHR ''0'' = digit_char 0" "CHR ''1'' = digit_char 1" "CHR ''2'' = digit_char 2"
  "CHR ''3'' = digit_char 3" "CHR ''7'' = digit_char 7" "CHR ''8'' = digit_char 8"
  by (simp_all add: digit_char_def)

lemma show_nat_1: "n < 10 \<Longrightarrow> show_nat n = [digit_char n]"
  by (subst show_nat.simps) simp

lemma show_nat_2:
  "10 \<le> n \<Longrightarrow> n < 100 \<Longrightarrow> show_nat n = [digit_char (n div 10), digit_char (n mod 10)]"
  by (subst show_nat.simps) (simp add: show_nat_1)

lemma show_nat_3:
  "100 \<le> n \<Longrightarrow> n < 1000 \<Longrightarrow>
   show_nat n = [digit_char (n div 100), digit_char (n div 10 mod 10), digit_char (n mod 10)]"
  by (subst show_nat.simps) (simp add: show_nat_2 div_mult2_eq [symmetric])

lemma short_codes:
  "n < 100 \<Longrightarrow> \<not> redirectRegex_test (show_nat n)"
  by (cases "n < 10") (simp_all add: show_nat_1 show_nat_2 redirectRegex_test_def)

lemma three_digits:
  assumes "a < 10" "b < 10" "c < 10"
  shows "redirectRegex_test [digit_char a, digit_char b, digit_char c] =
        ((a = 2 \<and> b = 0 \<and> c = 1) \<or> (a = 3 \<and> b = 0 \<and> (c = 1 \<or> c = 2 \<or> c = 7 \<or> c = 8)))"
proof -
  have l: "''201'' = [digit_char 2, digit_char 0, digit_char 1]"
    "''301'' = [digit_char 3, digit_char 0, digit_char 1]"
    "''302'' = [digit_char 3, digit_char 0, digit_char 2]"
    "''307'' = [digit_char 3, digit_char 0, digit_char 7]"
    "''308'' = [digit_char 3, digit_char 0, digit_char 8]"
    by (simp_all add: digit_char_def)
  show ?thesis
    unfolding redirectRegex_test_def l using assms
    by (simp add: digit_char_inj) blast
qed

lemma dec3: "(n::nat) = 100 * (n div 100) + 10 * (n div 10 mod 10) + n mod 10"
proof -
  have "n = 10 * (n div 10) + n mod 10" by simp
  moreover have "n div 10 = 10 * (n div 10 div 10) + n div 10 mod 10" by simp
  moreover have "n div 10 div 10 = n div 100" by (simp add: div_mult2_eq [symmetric])
  ultimately show ?thesis by linarith
qed

lemma redirect_codes:
  assumes "n < 1000"
  shows "redirectRegex_test (show_nat n) = (n \<in> {201, 301, 302, 307, 308})"
proof (cases "n < 100")
  case True
  have "n \<notin> {201, 301, 302, 307, 308}" using True by simp
  then show ?thesis using short_codes [OF True] by simp
next
  case False
  define a b c where "a = n div 100" and "b = n div 10 mod 10" and "c = n mod 10"
  have lt: "a < 10" "b < 10" "c < 10" using assms by (simp_all add: a_def b_def c_def)
  have n: "n = 100 * a + 10 * b + c" unfolding a_def b_def c_def by (rule dec3)
  have s: "show_nat n = [digit_char a, digit_char b, digit_char c]"
    unfolding a_def b_def c_def using False assms by (intro show_nat_3) simp_all
  have 1: "n \<in> {201, 301, 302, 307, 308}"
    if "(a = 2 \<and> b = 0 \<and> c = 1) \<or> (a = 3 \<and> b = 0 \<and> (c = 1 \<or> c = 2 \<or> c = 7 \<or> c = 8))"
    using that by (elim disjE conjE) (simp_all add: n)
  have 2: "(a = 2 \<and> b = 0 \<and> c = 1) \<or> (a = 3 \<and> b = 0 \<and> (c = 1 \<or> c = 2 \<or> c = 7 \<or> c = 8))"
    if "n \<in> {201, 301, 302, 307, 308}"
  proof -
    from that consider "n = 201" | "n = 301" | "n = 302" | "n = 307" | "n = 308" by blast
    then show ?thesis by cases (simp_all add: a_def b_def c_def)
  qed
  show ?thesis
    unfolding s three_digits [OF lt] using 1 2 by blast
qed

subsection \<open>The URLs of the example\<close>

lemma backend_target:
  "url_parse ''http://backend.com''
     = Some \<lparr>url_protocol = Some ''http:'', url_slashes = True, url_auth = None,
        url_host = Some ''backend.com'', url_port = None, url_hostname = Some ''backend.com'',
        url_hash = None, url_search = None, url_pathname = Some ''/''\<rparr>"
  by code_simp

lemma backend_location:
  "url_parse ''http://backend.com/''
     = Some \<lparr>url_protocol = Some ''http:'', url_slashes = True, url_auth = None,
        url_host = Some ''backend.com'', url_port = None, url_hostname = Some ''backend.com'',
        url_hash = None, url_search = None, url_pathname = Some ''/''\<rparr>"
  by code_simp

lemma manual_location:
  "url_format
     \<lparr>url_protocol = Some ''http:'', url_slashes = True, url_auth = None,
      url_host = Some ''ext-manual.com'', url_port = None, url_hostname = Some ''backend.com'',
      url_hash = None, url_search = None, url_pathname = Some ''/''\<rparr>
     = Some ''http://ext-manual.com/''"
  by code_simp

lemma other_location:
  "url_parse ''http://other.com/''
     = Some \<lparr>url_protocol = Some ''http:'', url_slashes = True, url_auth = None,
        url_host = Some ''other.com'', url_port = None, url_hostname = Some ''other.com'',
        url_hash = None, url_search = None, url_pathname = Some ''/''\<rparr>"
  by code_simp

text \<open>Strings that the description leaves out, and one with every component.\<close>

lemma outside_description:
  "url_parse ''mailto:a@backend.com'' = None"
  "url_parse ''http://backend.com;x/'' = None"
  "url_parse ''http://backend.com/a b'' = None"
  "url_parse ''http://u$er:pw@backend.com/'' = None"
  "url_parse ''/relative'' = None"
  by code_simp+

lemma more_urls:
  "map_option url_host (url_parse ''HTTPS://Backend.COM:8080/a/b?x=1&y=2#top'') = Some (Some ''backend.com:8080'')"
  "map_option url_pathname (url_parse ''HTTPS://Backend.COM:8080/a/b?x=1&y=2#top'') = Some (Some ''/a/b'')"
  "map_option url_search (url_parse ''HTTPS://Backend.COM:8080/a/b?x=1&y=2#top'') = Some (Some ''?x=1&y=2'')"
  "map_option url_hash (url_parse ''HTTPS://Backend.COM:8080/a/b?x=1&y=2#top'') = Some (Some ''#top'')"
  "map_option url_pathname (url_parse ''http://backend.com?x=1'') = Some (Some ''/'')"
  "url_parse ''http://a..b/'' = None"
  "url_parse ''http://backend.com:/'' = None"
  by code_simp+

lemma node_url_plain: "node_url plain_parse plain_format"
  by (simp add: node_url_def plain_parse_def plain_format_def)

subsection \<open>When the pass rewrites, and to what\<close>

lemma redirect_found: "redirectRegex_test (show_nat 302)"
  by (simp add: redirect_codes)

lemma rewrite_needs_redirect:
  assumes "proxy_statusCode proxyRes < 1000"
    and "setRedirectHostRewrite parse format req_headers proxyRes options \<noteq> proxyRes"
  shows "proxy_statusCode proxyRes \<in> {201, 301, 302, 307, 308}"
    and "url_host (parse (target options))
         = url_host (parse (text_of (proxy_headers proxyRes ''location'')))"
proof -
  have t: "redirectRegex_test (show_nat (proxy_statusCode proxyRes))"
    using assms(2) unfolding setRedirectHostRewrite_def by (auto split: if_splits)
  then show "proxy_statusCode proxyRes \<in> {201, 301, 302, 307, 308}"
    unfolding redirect_codes [OF assms(1)] .
  show "url_host (parse (target options))
         = url_host (parse (text_of (proxy_headers proxyRes ''location'')))"
    using assms(2) unfolding setRedirectHostRewrite_def Let_def by (auto split: if_splits)
qed

lemma hostRewrite_location:
  assumes "truthy_string (hostRewrite options)"
    and "truthy_string (proxy_headers proxyRes ''location'')"
    and "proxy_statusCode proxyRes \<in> {201, 301, 302, 307, 308}"
    and "url_host (parse (target options))
         = url_host (parse (text_of (proxy_headers proxyRes ''location'')))"
  shows "proxy_headers (setRedirectHostRewrite parse format req_headers proxyRes options)
           ''location''
         = Some (format
             (if truthy_string (protocolRewrite options)
              then (parse (text_of (proxy_headers proxyRes ''location'')))
                     \<lparr>url_host := hostRewrite options, url_protocol := protocolRewrite options\<rparr>
              else (parse (text_of (proxy_headers proxyRes ''location'')))
                     \<lparr>url_host := hostRewrite options\<rparr>))"
proof -
  have "proxy_statusCode proxyRes < 1000" using assms(3) by auto
  from redirect_codes [OF this] assms(3)
  have "redirectRegex_test (show_nat (proxy_statusCode proxyRes))" by simp
  then show ?thesis
    unfolding setRedirectHostRewrite_def Let_def using assms(1,2,4) by simp
qed

lemma hostRewrite_first:
  assumes "truthy_string (hostRewrite options)"
  shows "setRedirectHostRewrite parse format req_headers proxyRes (options\<lparr>autoRewrite := a\<rparr>)
         = setRedirectHostRewrite parse format req_headers' proxyRes options"
  unfolding setRedirectHostRewrite_def Let_def using assms by simp

lemma manual_example:
  assumes "node_url parse format"
  shows "setRedirectHostRewrite parse format req_headers
     \<lparr>proxy_statusCode = 302, proxy_headers = hs(''location'' \<mapsto> ''http://backend.com/'')\<rparr>
     \<lparr>target = ''http://backend.com'', hostRewrite = Some ''ext-manual.com'',
      autoRewrite = a, protocolRewrite = None\<rparr>
   = \<lparr>proxy_statusCode = 302, proxy_headers = hs(''location'' \<mapsto> ''http://ext-manual.com/'')\<rparr>"
proof -
  have p: "parse ''http://backend.com''
     = \<lparr>url_protocol = Some ''http:'', url_slashes = True, url_auth = None,
        url_host = Some ''backend.com'', url_port = None, url_hostname = Some ''backend.com'',
        url_hash = None, url_search = None, url_pathname = Some ''/''\<rparr>"
    "parse ''http://backend.com/''
     = \<lparr>url_protocol = Some ''http:'', url_slashes = True, url_auth = None,
        url_host = Some ''backend.com'', url_port = None, url_hostname = Some ''backend.com'',
        url_hash = None, url_search = None, url_pathname = Some ''/''\<rparr>"
    using assms backend_target backend_location unfolding node_url_def by blast+
  have f: "format
     \<lparr>url_protocol = Some ''http:'', url_slashes = True, url_auth = None,
      url_host = Some ''ext-manual.com'', url_port = None, url_hostname = Some ''backend.com'',
      url_hash = None, url_search = None, url_pathname = Some ''/''\<rparr>
     = ''http://ext-manual.com/''"
    using assms manual_location unfolding node_url_def by blast
  show ?thesis
    unfolding setRedirectHostRewrite_def Let_def
    by (simp add: redirect_found truthy_string_def text_of_def p f)
qed

lemma other_host_unchanged:
  assumes "url_host (parse (target options))
         \<noteq> url_host (parse (text_of (proxy_headers proxyRes ''location'')))"
  shows "setRedirectHostRewrite parse format req_headers proxyRes options = proxyRes"
  unfolding setRedirectHostRewrite_def Let_def using assms by simp

text \<open>
  C6. The status code of a backend response has at most three decimal digits, as the
  HTTP parser delivers it. Whatever \<open>parse\<close> and \<open>format\<close> are, the redirect pass
  changes the response only when the status code is 201, 301, 302, 307 or 308 and the
  host of the parsed \<open>Location\<close> equals the host of the parsed target, and a response
  whose \<open>Location\<close> host differs from the host of the target leaves the pass as it
  entered. With a \<open>hostRewrite\<close> that is set, the result is the same whether
  \<open>autoRewrite\<close> is set or not and whatever the inbound request headers are: on such a
  response \<open>Location\<close> becomes the text of the parsed redirect URL with \<open>hostRewrite\<close>
  as its host (and \<open>protocolRewrite\<close> as its scheme when that is set). For a parser and
  a formatter that are Node's on plain web URLs, with target \<open>http://backend.com\<close> and
  \<open>hostRewrite\<close> \<open>ext-manual.com\<close>, a 302 response with
  \<open>Location: http://backend.com/\<close> leaves the pass with
  \<open>Location: http://ext-manual.com/\<close> and its other headers as they were.
\<close>

theorem redirect_host_rewrite:
  assumes "proxy_statusCode proxyRes < 1000"
  shows
    "(setRedirectHostRewrite parse format req_headers proxyRes options \<noteq> proxyRes \<longrightarrow>
        proxy_statusCode proxyRes \<in> {201, 301, 302, 307, 308}
        \<and> url_host (parse (target options))
            = url_host (parse (text_of (proxy_headers proxyRes ''location''))))
     \<and> (truthy_string (hostRewrite options) \<longrightarrow>
          setRedirectHostRewrite parse format req_headers proxyRes
            (options\<lparr>autoRewrite := True\<rparr>)
          = setRedirectHostRewrite parse format other_headers proxyRes
              (options\<lparr>autoRewrite := False\<rparr>))
     \<and> (truthy_string (hostRewrite options)
          \<and> truthy_string (proxy_headers proxyRes ''location'')
          \<and> proxy_statusCode proxyRes \<in> {201, 301, 302, 307, 308}
          \<and> url_host (parse (target options))
              = url_host (parse (text_of (proxy_headers proxyRes ''location''))) \<longrightarrow>
          proxy_headers (setRedirectHostRewrite parse format req_headers proxyRes options)
            ''location''
          = Some (format
              (if truthy_string (protocolRewrite options)
               then (parse (text_of (proxy_headers proxyRes ''location'')))
                      \<lparr>url_host := hostRewrite options,
                       url_protocol := protocolRewrite options\<rparr>
               else (parse (text_of (proxy_headers proxyRes ''location'')))
                      \<lparr>url_host := hostRewrite options\<rparr>)))
     \<and> (node_url parse format \<longrightarrow>
          setRedirectHostRewrite parse format req_headers
            \<lparr>proxy_statusCode = 302,
             proxy_headers = hs(''location'' \<mapsto> ''http://backend.com/'')\<rparr>
            \<lparr>target = ''http://backend.com'', hostRewrite = Some ''ext-manual.com'',
             autoRewrite = a, protocolRewrite = None\<rparr>
          = \<lparr>proxy_statusCode = 302,
             proxy_headers = hs(''location'' \<mapsto> ''http://ext-manual.com/'')\<rparr>)
     \<and> (url_host (parse (target options))
          \<noteq> url_host (parse (text_of (proxy_headers proxyRes ''location''))) \<longrightarrow>
          setRedirectHostRewrite parse format req_headers proxyRes options = proxyRes)"
proof (intro conjI impI)
  assume "setRedirectHostRewrite parse format req_headers proxyRes options \<noteq> proxyRes"
  from rewrite_needs_redirect [OF assms this]
  show "proxy_statusCode proxyRes \<in> {201, 301, 302, 307, 308}"
    and "url_host (parse (target options))
         = url_host (parse (text_of (proxy_headers proxyRes ''location'')))"
    by blast+
next
  assume "truthy_string (hostRewrite options)"
  then have h: "truthy_string (hostRewrite (options\<lparr>autoRewrite := False\<rparr>))" by simp
  show "setRedirectHostRewrite parse format req_headers proxyRes
          (options\<lparr>autoRewrite := True\<rparr>)
        = setRedirectHostRewrite parse format other_headers proxyRes
            (options\<lparr>autoRewrite := False\<rparr>)"
    using hostRewrite_first [OF h, of parse format req_headers proxyRes True other_headers]
    by simp
next
  assume "truthy_string (hostRewrite options)
          \<and> truthy_string (proxy_headers proxyRes ''location'')
          \<and> proxy_statusCode proxyRes \<in> {201, 301, 302, 307, 308}
          \<and> url_host (parse (target options))
              = url_host (parse (text_of (proxy_headers proxyRes ''location'')))"
  then show "proxy_headers (setRedirectHostRewrite parse format req_headers proxyRes options)
            ''location''
          = Some (format
              (if truthy_string (protocolRewrite options)
               then (parse (text_of (proxy_headers proxyRes ''location'')))
                      \<lparr>url_host := hostRewrite options,
                       url_protocol := protocolRewrite options\<rparr>
               else (parse (text_of (proxy_headers proxyRes ''location'')))
                      \<lparr>url_host := hostRewrite options\<rparr>))"
    by (intro hostRewrite_location) blast+
next
  assume "node_url parse format"
  then show "setRedirectHostRewrite parse format req_headers
          \<lparr>proxy_statusCode = 302,
           proxy_headers = hs(''location'' \<mapsto> ''http://backend.com/'')\<rparr>
          \<lparr>target = ''http://backend.com'', hostRewrite = Some ''ext-manual.com'',
           autoRewrite = a, protocolRewrite = None\<rparr>
        = \<lparr>proxy_statusCode = 302,
           proxy_headers = hs(''location'' \<mapsto> ''http://ext-manual.com/'')\<rparr>"
    by (rule manual_example)
next
  assume "url_host (parse (target options))
          \<noteq> url_host (parse (text_of (proxy_headers proxyRes ''location'')))"
  then show "setRedirectHostRewrite parse format req_headers proxyRes options = proxyRes"
    by (rule other_host_unchanged)
qed

theorem redirect_host_rewrite_witness:
  "proxy_statusCode
     \<lparr>proxy_statusCode = 302,
      proxy_headers = [''location'' \<mapsto> ''http://other.com/'']\<rparr> < 1000
   \<and> node_url plain_parse plain_format
   \<and> setRedirectHostRewrite plain_parse plain_format [''host'' \<mapsto> ''front.example.org'']
        \<lparr>proxy_statusCode = 302,
         proxy_headers = [''location'' \<mapsto> ''http://backend.com/'']\<rparr>
        \<lparr>target = ''http://backend.com'', hostRewrite = Some ''ext-manual.com'',
         autoRewrite = True, protocolRewrite = None\<rparr>
      = \<lparr>proxy_statusCode = 302,
         proxy_headers = [''location'' \<mapsto> ''http://ext-manual.com/'']\<rparr>
   \<and> setRedirectHostRewrite plain_parse plain_format [''host'' \<mapsto> ''front.example.org'']
        \<lparr>proxy_statusCode = 302,
         proxy_headers = [''location'' \<mapsto> ''http://backend.com/'']\<rparr>
        \<lparr>target = ''http://backend.com'', hostRewrite = Some ''ext-manual.com'',
         autoRewrite = True, protocolRewrite = None\<rparr>
      \<noteq> \<lparr>proxy_statusCode = 302,
         proxy_headers = [''location'' \<mapsto> ''http://backend.com/'']\<rparr>
   \<and> url_host (plain_parse ''http://backend.com'') = Some ''backend.com''
   \<and> url_host (plain_parse ''http://other.com/'') = Some ''other.com''
   \<and> setRedirectHostRewrite plain_parse plain_format [''host'' \<mapsto> ''front.example.org'']
        \<lparr>proxy_statusCode = 302,
         proxy_headers = [''location'' \<mapsto> ''http://other.com/'']\<rparr>
        \<lparr>target = ''http://backend.com'', hostRewrite = Some ''ext-manual.com'',
         autoRewrite = True, protocolRewrite = None\<rparr>
      = \<lparr>proxy_statusCode = 302,
         proxy_headers = [''location'' \<mapsto> ''http://other.com/'']\<rparr>"
proof -
  let ?h = "[''host'' \<mapsto> ''front.example.org'']"
  let ?o = "\<lparr>target = ''http://backend.com'', hostRewrite = Some ''ext-manual.com'',
            autoRewrite = True, protocolRewrite = None\<rparr>"
  let ?r = "\<lparr>proxy_statusCode = 302,
            proxy_headers = [''location'' \<mapsto> ''http://other.com/'']\<rparr>"
  have 0: "node_url plain_parse plain_format"
    by (simp add: node_url_def plain_parse_def plain_format_def)
  have 1: "proxy_statusCode ?r < 1000" by simp
  have 6: "url_host (plain_parse ''http://backend.com'') = Some ''backend.com''"
    "url_host (plain_parse ''http://other.com/'') = Some ''other.com''"
    by (simp_all add: plain_parse_def backend_target other_location)
  have 2: "url_host (plain_parse (target ?o))
           \<noteq> url_host (plain_parse (text_of (proxy_headers ?r ''location'')))"
    by (simp add: text_of_def 6)
  have 3: "[''location'' \<mapsto> ''http://ext-manual.com/'']
           \<noteq> [''location'' \<mapsto> ''http://backend.com/'']"
    by (auto dest: map_upd_eqD1)
  from redirect_host_rewrite [OF 1, of plain_parse plain_format ?h ?o _ Map.empty True]
  have 4: "setRedirectHostRewrite plain_parse plain_format ?h ?r ?o = ?r"
    and 5: "setRedirectHostRewrite plain_parse plain_format ?h
          \<lparr>proxy_statusCode = 302,
           proxy_headers = [''location'' \<mapsto> ''http://backend.com/'']\<rparr> ?o
        = \<lparr>proxy_statusCode = 302,
           proxy_headers = [''location'' \<mapsto> ''http://ext-manual.com/'']\<rparr>"
    using 0 2 by blast+
  show ?thesis unfolding 5 using 0 1 3 4 6 by simp
qed

section \<open>Proofs: cookie attributes\<close>

text \<open>
  For a cookie value that is not one of the names every object inherits, the
  replacement is the entry of the configuration for that value, else the entry for
  \<open>*\<close>, else the match as it stands; an entry that is \<open>null\<close> or the empty string
  removes the attribute.
\<close>

lemma wildcard_not_inherited: "map_of object_prototype ''*'' = None"
  by code_simp

lemma replacement_own:
  assumes "map_of object_prototype previousValue = None"
  shows "replacement config prefix previousValue
         = (case config previousValue of
              Some v \<Rightarrow> if truthy_string v then prefix @ text_of v else []
            | None \<Rightarrow>
                (case config ''*'' of
                   Some v \<Rightarrow> if truthy_string v then prefix @ text_of v else []
                 | None \<Rightarrow> prefix @ previousValue))"
  unfolding replacement_def property_in_def property_get_def Let_def
  using assms wildcard_not_inherited
  by (simp add: truthy_string_def text_of_def split: option.splits)

text \<open>
  C7. The cookie \<open>sid=1; Domain=constructor; Path=/\<close> is rewritten for the property
  \<open>domain\<close> under the configuration \<open>{"*": "example.com"}\<close>, which has no entry of
  its own for \<open>constructor\<close>. The test \<open>previousValue in config\<close> finds the
  \<open>constructor\<close> that the configuration inherits from \<open>Object.prototype\<close>, so the
  domain written is the source text of that function and not the value of the wildcard
  entry.
\<close>

theorem cookie_domain_inherited_name:
  "rewriteCookieProperty (Single ''sid=1; Domain=constructor; Path=/'')
     [''*'' \<mapsto> Some ''example.com''] ''domain''
   = Single ''sid=1; Domain=function Object() { [native code] }; Path=/''"
  by code_simp

lemma cookie_domain_wildcard:
  "rewriteCookieProperty (Single ''sid=1; Domain=backend.com; Path=/'')
     [''*'' \<mapsto> Some ''example.com''] ''domain''
   = Single ''sid=1; Domain=example.com; Path=/''"
  by code_simp

end
